theory Spec2Isabelle
  imports Main "HOL-Library.Word" "HOL-Library.AList"
begin

section \<open>Signing and signature verification of src/lightcone/ethereum/metaMask.js\<close>

text \<open>
  The module is glue between a wallet provider (\<open>web3\<close>), the ambient \<open>window\<close>
  object, the repository's own helper modules (\<open>../common/formatter\<close> and
  \<open>../ethereum/contracts\<close>) and two libraries (\<open>ethereumjs-util\<close>,
  \<open>ethereumjs-tx\<close>). None of the helpers or libraries is part of the sources, so every
  function imported from them is a parameter of the model (a field of the record
  \<open>imported\<close>), and so is every operation of the provider (record \<open>web3\<close>). What
  the module itself does is modelled line by line: the string built-ins it uses, the
  branching, the promises' states and the sequence of provider calls.
\<close>

subsection \<open>JavaScript values and string built-ins\<close>

type_synonym bytes = "8 word list"

text \<open>The dynamically typed values handed to the helper functions.\<close>

datatype jsval = JString string | JBuffer bytes | JNumber int | JUndefined

text \<open>
  A plain object is the list of its properties in insertion order, each name once.
  \<open>delete o.k\<close> is \<open>AList.delete\<close>; an assignment \<open>o.k = x\<close> is
  \<open>AList.update\<close>, which overwrites in place or appends.
\<close>

type_synonym jsobject = "(string \<times> jsval) list"

text \<open>
  An \<open>Error\<close> object, read only through its \<open>message\<close>, and the
  \<open>TypeError\<close> the engine throws when a property of \<open>undefined\<close> is read.
\<close>

datatype js_error = JsError (message: string) | JsTypeError

text \<open>
  \<open>s.slice(a, b)\<close> for the non-negative literal offsets the module uses: both ends are
  clamped to the length, and an end before the start gives the empty string.
\<close>

definition js_slice :: "string \<Rightarrow> nat \<Rightarrow> nat \<Rightarrow> string" where
  "js_slice s a b = take (b - a) (drop a s)"

text \<open>
  \<open>s.indexOf(pat)\<close>: the index of the first occurrence of \<open>pat\<close>, or \<open>-1\<close>.
\<close>

fun indexOf :: "string \<Rightarrow> string \<Rightarrow> int" where
  "indexOf [] pat = (if pat = [] then 0 else - 1)"
| "indexOf (c # cs) pat =
     (if take (length pat) (c # cs) = pat then 0
      else (let i = indexOf cs pat in if i < 0 then - 1 else i + 1))"

text \<open>
  \<open>s.substring(a, b)\<close>: a negative argument counts as 0, one beyond the length as the
  length, and the two are swapped when the first is the larger.
\<close>

definition substring :: "string \<Rightarrow> int \<Rightarrow> int \<Rightarrow> string" where
  "substring s a b =
     (let n = int (length s);
          a' = max 0 (min a n);
          b' = max 0 (min b n);
          lo = min a' b';
          hi = max a' b'
      in take (nat (hi - lo)) (drop (nat lo) s))"

text \<open>\<open>s.toLowerCase()\<close> on the ASCII letters of an address.\<close>

definition lower_char :: "char \<Rightarrow> char" where
  "lower_char c =
     (let n = (of_char c :: int) in if 65 \<le> n \<and> n \<le> 90 then char_of (n + 32) else c)"

definition toLowerCase :: "string \<Rightarrow> string" where
  "toLowerCase s = map lower_char s"

subsection \<open>Promises, provider callbacks and the provider\<close>

text \<open>
  The state a promise ends in. \<open>Pending\<close> is the promise that never settles: its
  \<open>resolve\<close> is never called, because the code that would call it threw first.
\<close>

datatype 'a settled = Resolved 'a | Rejected js_error | Pending

text \<open>What a provider passes to a node-style callback \<open>function (err, result)\<close>.\<close>

datatype 'a callback = Err js_error | Ok 'a

text \<open>
  The calls made to the provider, in the order they are made. Every function of the
  module returns the state of its promise together with this list. The provider is taken
  to call each callback once, with an answer that depends on the request.
\<close>

datatype event =
    EthSign string string
  | PersonalSign string string string
  | PersonalEcRecover string string
  | EthCall string string
  | EthSendTransaction jsobject

record web3 =
  eth_sign :: "string \<Rightarrow> string \<Rightarrow> string callback"
  personal_sign :: "string \<Rightarrow> string \<Rightarrow> string \<Rightarrow> string callback"
  personal_ecRecover :: "string \<Rightarrow> string \<Rightarrow> string callback"
  eth_call :: "string \<Rightarrow> string \<Rightarrow> string callback"
  eth_sendTransaction :: "jsobject \<Rightarrow> string callback"

text \<open>
  The ambient \<open>window\<close>: the truthiness of \<open>window.imToken\<close>, and
  \<open>window.ethereum\<close> (absent, or an object with the flag \<open>isImToken\<close>).
\<close>

record window =
  imToken :: bool
  ethereum :: "bool option"

subsection \<open>The imported functions\<close>

text \<open>The object \<open>{v, r, s}\<close> that \<open>fromRpcSig\<close> returns.\<close>

record ecsig =
  sig_v :: int
  sig_r :: bytes
  sig_s :: bytes

text \<open>
  Functions of the formatter module, of ethereumjs-util, of the contract ABI and of
  ethereumjs-tx. \<open>fromRpcSig\<close> and \<open>ecrecover\<close> throw on a signature they cannot
  use, so they return a sum; the others are taken to return normally.
  A transaction object is the object of its properties; its methods are functions of it.
\<close>

record imported =
  addHexPrefix :: "jsval \<Rightarrow> string"
  toBuffer :: "jsval \<Rightarrow> bytes"
  toHex :: "bytes \<Rightarrow> string"
  toNumber :: "string \<Rightarrow> int"
  ecrecover :: "bytes \<Rightarrow> int \<Rightarrow> bytes \<Rightarrow> bytes \<Rightarrow> js_error + bytes"
  fromRpcSig :: "string \<Rightarrow> js_error + ecsig"
  hashPersonalMessage :: "bytes \<Rightarrow> bytes"
  keccak256 :: "bytes \<Rightarrow> bytes"
  pubToAddress :: "bytes \<Rightarrow> bytes"
  encodeInputs :: "string \<Rightarrow> (string \<times> jsval) list \<Rightarrow> string"
  decodeOutputs :: "string \<Rightarrow> string \<Rightarrow> jsval list"
  Transaction :: "jsobject \<Rightarrow> jsobject"
  tx_hash :: "jsobject \<Rightarrow> bool \<Rightarrow> bytes"
  tx_getChainId :: "jsobject \<Rightarrow> int"
  tx_serialize :: "jsobject \<Rightarrow> bytes"

subsection \<open>sign\<close>

text \<open>The object \<open>{r, s, v}\<close> that \<open>sign\<close> resolves with.\<close>

record signature =
  r :: string
  s :: string
  v :: int

text \<open>\<open>{ result: { r, s, v } }\<close> or \<open>{ error: { message } }\<close>.\<close>

datatype sign_response = SignResult signature | SignError string

text \<open>The success branch of the callback of \<open>sign\<close> (lines 24 to 28).\<close>

definition sign_result :: "imported \<Rightarrow> string \<Rightarrow> signature" where
  "sign_result im result =
     (let r = js_slice result 0 66;
          s = addHexPrefix im (JString (js_slice result 66 130));
          v = toNumber im (addHexPrefix im (JString (js_slice result 130 132)));
          v = (if v = 0 \<or> v = 1 then v + 27 else v)
      in \<lparr>r = r, s = s, v = v\<rparr>)"

text \<open>The error branch (lines 30 and 31).\<close>

definition sign_errorMsg :: "js_error \<Rightarrow> string" where
  "sign_errorMsg err = substring (message err) 0 (indexOf (message err) '' at '')"

definition sign :: "imported \<Rightarrow> web3 \<Rightarrow> string \<Rightarrow> string \<Rightarrow> sign_response settled \<times> event list" where
  "sign im w account hash =
     (case eth_sign w hash account of
        Ok result \<Rightarrow> (Resolved (SignResult (sign_result im result)), [EthSign hash account])
      | Err err \<Rightarrow> (Resolved (SignError (sign_errorMsg err)), [EthSign hash account]))"

subsection \<open>The verification strategies\<close>

text \<open>
  \<open>{ result: b }\<close> or \<open>{ error: err }\<close>, and the truthiness of its \<open>result\<close>
  property: an object without the property reads \<open>undefined\<close>, which is falsy.
\<close>

datatype valid = ResultObj bool | ErrorObj js_error

fun valid_result :: "valid \<Rightarrow> bool" where
  "valid_result (ResultObj b) = b"
| "valid_result (ErrorObj err) = False"

text \<open>\<open>xs[0]\<close>: \<open>undefined\<close> on the empty array.\<close>

fun index0 :: "jsval list \<Rightarrow> jsval" where
  "index0 [] = JUndefined"
| "index0 (x # xs) = x"

definition ecRecover :: "web3 \<Rightarrow> string \<Rightarrow> string \<Rightarrow> string \<Rightarrow> valid settled \<times> event list" where
  "ecRecover w account msg sig =
     (case personal_ecRecover w msg sig of
        Ok address \<Rightarrow>
          (Resolved (ResultObj (toLowerCase address = toLowerCase account)),
           [PersonalEcRecover msg sig])
      | Err err \<Rightarrow> (Resolved (ErrorObj err), [PersonalEcRecover msg sig]))"

definition contractWalletValidate ::
  "imported \<Rightarrow> web3 \<Rightarrow> string \<Rightarrow> string \<Rightarrow> string \<Rightarrow> valid settled \<times> event list" where
  "contractWalletValidate im w account msg sig =
     (let hash = hashPersonalMessage im (toBuffer im (JString msg));
          data = encodeInputs im ''isValidSignature(bytes,bytes)''
                   [(''_data'', JBuffer hash), (''_signature'', JBuffer (toBuffer im (JString sig)))]
      in case eth_call w account data of
           Ok result \<Rightarrow>
             (let valid = decodeOutputs im ''isValidSignature(bytes,bytes)'' result
              in (Resolved (ResultObj (toHex im (toBuffer im (index0 valid)) = js_slice data 0 10)),
                  [EthCall account data]))
         | Err err \<Rightarrow> (Resolved (ErrorObj err), [EthCall account data]))"

definition contractWalletValidate2 ::
  "imported \<Rightarrow> web3 \<Rightarrow> string \<Rightarrow> string \<Rightarrow> string \<Rightarrow> valid settled \<times> event list" where
  "contractWalletValidate2 im w account msg sig =
     (let hash = hashPersonalMessage im (toBuffer im (JString msg));
          data = encodeInputs im ''isValidSignature(bytes32,bytes)''
                   [(''_data'', JBuffer hash), (''_signature'', JBuffer (toBuffer im (JString sig)))]
      in case eth_call w account data of
           Ok result \<Rightarrow>
             (let valid = decodeOutputs im ''isValidSignature(bytes32,bytes)'' result
              in (Resolved (ResultObj (toHex im (toBuffer im (index0 valid)) = js_slice data 0 10)),
                  [EthCall account data]))
         | Err err \<Rightarrow> (Resolved (ErrorObj err), [EthCall account data]))"

definition myKeyContract :: string where
  "myKeyContract = ''0xADc92d1fD878580579716d944eF3460E241604b7''"

text \<open>
  The recovery runs inside the callback of \<open>web3.eth.call\<close>: when \<open>fromRpcSig\<close> or
  \<open>ecrecover\<close> throws there, \<open>resolve\<close> is never reached.
\<close>

definition mykeyWalletValid ::
  "imported \<Rightarrow> web3 \<Rightarrow> string \<Rightarrow> string \<Rightarrow> string \<Rightarrow> valid settled \<times> event list" where
  "mykeyWalletValid im w account msg sig =
     (let data = encodeInputs im ''getKeyData''
                   [(''_account'', JString account), (''_index'', JNumber 3)]
      in case eth_call w myKeyContract data of
           Ok res \<Rightarrow>
             (case fromRpcSig im sig of
                Inl e \<Rightarrow> (Pending, [EthCall myKeyContract data])
              | Inr signature \<Rightarrow>
                  (let hash = hashPersonalMessage im (keccak256 im (toBuffer im (JString msg)));
                       address = addHexPrefix im (index0 (decodeOutputs im ''getKeyData'' res))
                   in case ecrecover im hash (sig_v signature) (sig_r signature) (sig_s signature) of
                        Inl e \<Rightarrow> (Pending, [EthCall myKeyContract data])
                      | Inr pub \<Rightarrow>
                          (Resolved (ResultObj (toLowerCase (toHex im (pubToAddress im pub))
                                                 = toLowerCase address)),
                           [EthCall myKeyContract data])))
         | Err err \<Rightarrow> (Resolved (ErrorObj err), [EthCall myKeyContract data]))"

definition authereumValid ::
  "imported \<Rightarrow> web3 \<Rightarrow> string \<Rightarrow> string \<Rightarrow> string \<Rightarrow> valid settled \<times> event list" where
  "authereumValid im w account msg sig =
     (let hash = toBuffer im (JString msg);
          data = encodeInputs im ''isValidSignature(bytes,bytes)''
                   [(''_data'', JBuffer hash), (''_signature'', JBuffer (toBuffer im (JString sig)))]
      in case eth_call w account data of
           Ok result \<Rightarrow>
             (let valid = decodeOutputs im ''isValidSignature(bytes,bytes)'' result
              in (Resolved (ResultObj (toHex im (toBuffer im (index0 valid)) = js_slice data 0 10)),
                  [EthCall account data]))
         | Err err \<Rightarrow> (Resolved (ErrorObj err), [EthCall account data]))"

text \<open>
  Here the recovery runs in the promise's executor, so an exception rejects the
  promise. No provider operation is used.
\<close>

definition walletLinkValid ::
  "imported \<Rightarrow> web3 \<Rightarrow> string \<Rightarrow> string \<Rightarrow> string \<Rightarrow> valid settled \<times> event list" where
  "walletLinkValid im w account msg sig =
     (case fromRpcSig im sig of
        Inl e \<Rightarrow> (Rejected e, [])
      | Inr signature \<Rightarrow>
          (let hash = hashPersonalMessage im (toBuffer im (JString msg))
           in case ecrecover im hash (sig_v signature) (sig_r signature) (sig_s signature) of
                Inl e \<Rightarrow> (Rejected e, [])
              | Inr pub \<Rightarrow>
                  (Resolved (ResultObj (toLowerCase (toHex im (pubToAddress im pub))
                                         = toLowerCase account)), [])))"

subsection \<open>personalSign\<close>

text \<open>
  \<open>{ sig: result }\<close>, \<open>{ error: '...' }\<close> with one of the module's own strings, or
  \<open>{ error: err }\<close> with the provider's error object.
\<close>

datatype personal_response = SigResp string | ErrorStr string | ErrorErr js_error

text \<open>
  \<open>await p\<close> inside the \<open>async\<close> callback of \<open>web3.eth.personal.sign\<close>. The callback
  has no \<open>try\<close>: when \<open>p\<close> rejects, the callback's own promise rejects, nobody calls the
  outer \<open>resolve\<close>, and the promise that \<open>personalSign\<close> returned stays pending. So
  it does when \<open>p\<close> never settles.
\<close>

fun await :: "'a settled \<times> event list \<Rightarrow> ('a \<Rightarrow> 'b settled \<times> event list) \<Rightarrow> 'b settled \<times> event list" where
  "await (Resolved x, log) k = (case k x of (y, log') \<Rightarrow> (y, log @ log'))"
| "await (Rejected e, log) k = (Pending, log)"
| "await (Pending, log) k = (Pending, log)"

definition resolve :: "'a \<Rightarrow> 'a settled \<times> event list" where
  "resolve x = (Resolved x, [])"

text \<open>The provider call that was made before the callback ran.\<close>

fun called :: "event \<Rightarrow> 'a settled \<times> event list \<Rightarrow> 'a settled \<times> event list" where
  "called ev (y, log) = (y, ev # log)"

definition isImToken :: "window \<Rightarrow> bool" where
  "isImToken win = (imToken win \<or> (case ethereum win of None \<Rightarrow> False | Some flag \<Rightarrow> flag))"

definition personalSign ::
  "imported \<Rightarrow> web3 \<Rightarrow> window \<Rightarrow> string \<Rightarrow> string \<Rightarrow> string option
     \<Rightarrow> personal_response settled \<times> event list" where
  "personalSign im w win account msg walletType =
     (case personal_sign w msg account '''' of
        Ok result \<Rightarrow>
          called (PersonalSign msg account '''')
             (if isImToken win then resolve (SigResp result)
              else if walletType = Some ''WalletLink'' then
                await (walletLinkValid im w account msg result)
                  (\<lambda>valid.
                    if valid_result valid then resolve (SigResp result)
                    else resolve (ErrorStr ''Failed to valid using WalletLink''))
              else if walletType = Some ''Authereum'' then
                await (authereumValid im w account msg result)
                  (\<lambda>valid.
                    if valid_result valid then resolve (SigResp result)
                    else resolve (ErrorStr ''invalid sig using Authereum''))
              else
                await (ecRecover w account msg result)
                  (\<lambda>valid.
                    if valid_result valid then resolve (SigResp result)
                    else
                      await (contractWalletValidate im w account msg result)
                        (\<lambda>walletValid.
                          if valid_result walletValid then resolve (SigResp result)
                          else
                            await (contractWalletValidate2 im w account msg result)
                              (\<lambda>walletValid2.
                                if valid_result walletValid2 then resolve (SigResp result)
                                else
                                  await (mykeyWalletValid im w account msg result)
                                    (\<lambda>myKeyValid.
                                      if valid_result myKeyValid then resolve (SigResp result)
                                      else resolve (ErrorStr ''invalid sig''))))))
      | Err err \<Rightarrow> called (PersonalSign msg account '''') (resolve (ErrorErr err)))"

subsection \<open>signEthereumTx and sendTransaction\<close>

text \<open>
  \<open>Object.assign(ethTx, signature)\<close> copies the properties \<open>r\<close>, \<open>s\<close> and \<open>v\<close>
  of the signature into the transaction object.
\<close>

definition assign_signature :: "jsobject \<Rightarrow> signature \<Rightarrow> jsobject" where
  "assign_signature ethTx signature =
     AList.update ''v'' (JNumber (v signature))
       (AList.update ''s'' (JString (s signature))
          (AList.update ''r'' (JString (r signature)) ethTx))"

text \<open>
  JavaScript numbers are IEEE doubles. An integer of magnitude below \<open>2^53\<close> is a
  double, and a sum or product of such integers that is again below \<open>2^53\<close> is
  computed exactly; beyond that the code rounds. The model computes on integers, so it is
  the code only on this range, and every statement about the arithmetic of
  \<open>signEthereumTx\<close> assumes \<open>safe_integer\<close> of the operands, of the intermediate
  values and of the result.
\<close>

definition safe_integer :: "int \<Rightarrow> bool" where
  "safe_integer n = (\<bar>n\<bar> < 2 ^ 53)"

text \<open>
  An \<open>async\<close> function: a \<open>throw\<close> in its body rejects the promise it returned.
  Line 335 computes \<open>getChainId() * 2\<close>, adds 8, and adds the sum to \<open>v\<close>.
\<close>

definition signEthereumTx ::
  "imported \<Rightarrow> web3 \<Rightarrow> string \<Rightarrow> jsobject \<Rightarrow> string settled \<times> event list" where
  "signEthereumTx im w account rawTx =
     (let ethTx = Transaction im rawTx;
          hash = toHex im (tx_hash im ethTx False)
      in case sign im w account hash of
           (Resolved (SignResult signature), log) \<Rightarrow>
             (let signature = signature\<lparr>v := v signature + (tx_getChainId im ethTx * 2 + 8)\<rparr>;
                  ethTx = assign_signature ethTx signature
              in (Resolved (toHex im (tx_serialize im ethTx)), log))
         | (Resolved (SignError m), log) \<Rightarrow> (Rejected (JsError m), log)
         | (Rejected e, log) \<Rightarrow> (Rejected e, log)
         | (Pending, log) \<Rightarrow> (Pending, log))"

text \<open>
  \<open>sendTransaction\<close> returns, beside the promise's state and the provider calls, the
  caller's transaction object as the call leaves it. A transaction hash that is the empty
  string is falsy, and then \<open>response['error']\<close> is \<open>undefined\<close>.
\<close>

definition sendTransaction ::
  "web3 \<Rightarrow> jsobject \<Rightarrow> string settled \<times> jsobject \<times> event list" where
  "sendTransaction w tx =
     (let tx = AList.delete ''gasPrice'' tx
      in case eth_sendTransaction w tx of
           Ok transactionHash \<Rightarrow>
             (if transactionHash \<noteq> [] then (Resolved transactionHash, tx, [EthSendTransaction tx])
              else (Rejected JsTypeError, tx, [EthSendTransaction tx]))
         | Err err \<Rightarrow> (Rejected (JsError (message err)), tx, [EthSendTransaction tx]))"

subsection \<open>Hexadecimal strings\<close>

text \<open>
  An RPC signature string is \<open>0x\<close> followed by two lower-case hexadecimal digits for
  each of its 65 bytes. \<open>hex_enc\<close> writes bytes that way; the statements about byte
  offsets are made with it.
\<close>

definition hexdigit :: "int \<Rightarrow> char" where
  "hexdigit n = (if n < 10 then char_of (48 + n) else char_of (87 + n))"

definition hex_byte :: "8 word \<Rightarrow> string" where
  "hex_byte b = [hexdigit (uint b div 16), hexdigit (uint b mod 16)]"

definition hex_enc :: "bytes \<Rightarrow> string" where
  "hex_enc bs = concat (map hex_byte bs)"

subsection \<open>A sample environment\<close>

text \<open>
  Concrete helper functions, a concrete provider and concrete inputs, used only to
  instantiate the theorems below. The formatter functions read and write hexadecimal;
  \<open>fromRpcSig\<close> refuses a string that is not 65 bytes long and \<open>ecrecover\<close> a
  recovery id other than 27 and 28; the hash functions and the key recovery are
  stand-ins that keep their arguments apart.
\<close>

definition hexval :: "char \<Rightarrow> int" where
  "hexval c =
     (let n = (of_char c :: int)
      in if 48 \<le> n \<and> n \<le> 57 then n - 48
         else if 97 \<le> n \<and> n \<le> 102 then n - 87
         else if 65 \<le> n \<and> n \<le> 70 then n - 55
         else 0)"

fun unhex :: "string \<Rightarrow> bytes" where
  "unhex (a # b # cs) = word_of_int (16 * hexval a + hexval b) # unhex cs"
| "unhex cs = []"

definition strip0x :: "string \<Rightarrow> string" where
  "strip0x x = (if take 2 x = ''0x'' then drop 2 x else x)"

definition sample_addHexPrefix :: "jsval \<Rightarrow> string" where
  "sample_addHexPrefix x =
     (case x of JString t \<Rightarrow> (if take 2 t = ''0x'' then t else ''0x'' @ t) | _ \<Rightarrow> ''0x'')"

definition sample_toBuffer :: "jsval \<Rightarrow> bytes" where
  "sample_toBuffer x =
     (case x of
        JString t \<Rightarrow> (if take 2 t = ''0x'' then unhex (drop 2 t)
                       else map (\<lambda>c. word_of_int (of_char c)) t)
      | JBuffer b \<Rightarrow> b
      | JNumber n \<Rightarrow> [word_of_int n]
      | JUndefined \<Rightarrow> [])"

definition sample_toNumber :: "string \<Rightarrow> int" where
  "sample_toNumber x = foldl (\<lambda>a c. 16 * a + hexval c) 0 (strip0x x)"

definition sample_fromRpcSig :: "string \<Rightarrow> js_error + ecsig" where
  "sample_fromRpcSig x =
     (let b = unhex (strip0x x)
      in if length b \<noteq> 65 then Inl (JsError ''Invalid signature length'')
         else Inr \<lparr>sig_v = uint (b ! 64), sig_r = take 32 b, sig_s = take 32 (drop 32 b)\<rparr>)"

definition sample_ecrecover :: "bytes \<Rightarrow> int \<Rightarrow> bytes \<Rightarrow> bytes \<Rightarrow> js_error + bytes" where
  "sample_ecrecover h n a b =
     (if n = 27 \<or> n = 28 then Inr (take 2 h @ take 2 a)
      else Inl (JsError ''Invalid signature v value''))"

definition sample_encodeInputs :: "string \<Rightarrow> (string \<times> jsval) list \<Rightarrow> string" where
  "sample_encodeInputs method args =
     (if method = ''isValidSignature(bytes,bytes)'' then ''0x20c13b0b''
      else if method = ''isValidSignature(bytes32,bytes)'' then ''0x1626ba7e''
      else ''0x7f9d5bf5'')
     @ concat (map (\<lambda>(k, x). hex_enc (sample_toBuffer x)) args)"

definition sample_decodeOutputs :: "string \<Rightarrow> string \<Rightarrow> jsval list" where
  "sample_decodeOutputs method res = (if strip0x res = [] then [] else [JString res])"

definition sample_field :: "jsobject \<Rightarrow> string \<Rightarrow> bytes" where
  "sample_field tx k = (case map_of tx k of Some x \<Rightarrow> sample_toBuffer x | None \<Rightarrow> [])"

definition sample_im :: imported where
  "sample_im =
     \<lparr>addHexPrefix = sample_addHexPrefix,
      toBuffer = sample_toBuffer,
      toHex = (\<lambda>b. ''0x'' @ hex_enc b),
      toNumber = sample_toNumber,
      ecrecover = sample_ecrecover,
      fromRpcSig = sample_fromRpcSig,
      hashPersonalMessage = (\<lambda>b. 25 # b),
      keccak256 = rev,
      pubToAddress = (\<lambda>b. b),
      encodeInputs = sample_encodeInputs,
      decodeOutputs = sample_decodeOutputs,
      Transaction = (\<lambda>raw. raw),
      tx_hash = (\<lambda>tx withSig. 25 # sample_field tx ''nonce'' @ sample_field tx ''to''),
      tx_getChainId = (\<lambda>tx. case map_of tx ''chainId'' of Some (JNumber n) \<Rightarrow> n | _ \<Rightarrow> 0),
      tx_serialize = (\<lambda>tx. concat (map (sample_field tx) [''nonce'', ''to'', ''v'', ''r'', ''s'']))\<rparr>"

text \<open>A well-formed signature string (65 bytes, recovery id 27) and a malformed one.\<close>

definition sample_sig :: string where
  "sample_sig = ''0xabcd00000000000000000000000000000000000000000000000000000000000011111111111111111111111111111111111111111111111111111111111111111b''"

definition short_sig :: string where
  "short_sig = ''0x1234''"

text \<open>
  The sample provider answers a request to sign with \<open>reply\<close>. Its \<open>ecRecover\<close>
  names the signer of a 65-byte signature and refuses any other; a contract wallet of
  the \<open>bytes32\<close> variant lives at \<open>0xc2\<close> and one of the \<open>bytes\<close> variant at
  \<open>0xa7\<close>; the registry knows a key for the account \<open>0x4d4b\<close>; every other call
  reverts.
\<close>

definition sample_eth_call :: "string \<Rightarrow> string \<Rightarrow> string callback" where
  "sample_eth_call to data =
     (if to = myKeyContract then
        (if data = sample_encodeInputs ''getKeyData''
                     [(''_account'', JString ''0x4d4b''), (''_index'', JNumber 3)]
         then Ok ''0x1969ABCD'' else Ok ''0x00000000'')
      else if to = ''0xc2'' \<and> take 10 data = ''0x1626ba7e'' then Ok ''0x1626ba7e''
      else if to = ''0xa7'' \<and> take 10 data = ''0x20c13b0b'' then Ok ''0x20c13b0b''
      else Err (JsError ''execution reverted''))"

definition sample_web3 :: "string callback \<Rightarrow> web3" where
  "sample_web3 reply =
     \<lparr>eth_sign = (\<lambda>hash account. reply),
      personal_sign = (\<lambda>msg account password. reply),
      personal_ecRecover = (\<lambda>msg sig.
         if length sig = 132 then Ok ''0x1968abcd'' else Err (JsError ''invalid signature length'')),
      eth_call = sample_eth_call,
      eth_sendTransaction = (\<lambda>tx. case map_of tx ''to'' of
         Some x \<Rightarrow> Ok ''0x7472616e73616374696f6e''
       | None \<Rightarrow> Err (JsError ''invalid address''))\<rparr>"

definition denied :: js_error where
  "denied = JsError ''User denied message signature. at Object.sign (inpage.js:1)''"

definition plain_window :: window where
  "plain_window = \<lparr>imToken = False, ethereum = Some False\<rparr>"

definition imToken_window :: window where
  "imToken_window = \<lparr>imToken = False, ethereum = Some True\<rparr>"

definition sample_tx :: jsobject where
  "sample_tx = [(''nonce'', JNumber 7), (''gasPrice'', JNumber 5), (''to'', JString ''0xc2''),
                (''chainId'', JNumber 1)]"

section \<open>Properties\<close>

subsection \<open>Hexadecimal strings and the string built-ins\<close>

lemma length_hex_byte: "length (hex_byte b) = 2"
  by (simp add: hex_byte_def)

lemma length_hex_enc: "length (hex_enc bs) = 2 * length bs"
  by (induction bs) (simp_all add: hex_enc_def length_hex_byte)

lemma hex_enc_append: "hex_enc (xs @ ys) = hex_enc xs @ hex_enc ys"
  by (simp add: hex_enc_def)

lemma take_hex_enc: "take (2 * n) (hex_enc bs) = hex_enc (take n bs)"
proof (induction bs arbitrary: n)
  case Nil
  then show ?case by (simp add: hex_enc_def)
next
  case (Cons b bs)
  show ?case
  proof (cases n)
    case 0
    then show ?thesis by (simp add: hex_enc_def)
  next
    case (Suc m)
    have "hex_enc (b # bs) = hex_byte b @ hex_enc bs" by (simp add: hex_enc_def)
    moreover have "hex_enc (take (Suc m) (b # bs)) = hex_byte b @ hex_enc (take m bs)"
      by (simp add: hex_enc_def)
    ultimately show ?thesis using Cons.IH [of m] Suc by (simp add: length_hex_byte)
  qed
qed

lemma slice_r:
  assumes "length rb = 32"
  shows "js_slice (''0x'' @ hex_enc (rb @ rest)) 0 66 = ''0x'' @ hex_enc rb"
  using assms by (simp add: js_slice_def hex_enc_append length_hex_enc)

lemma slice_s:
  assumes "length rb = 32" and "length sb = 32"
  shows "js_slice (''0x'' @ hex_enc (rb @ sb @ rest)) 66 130 = hex_enc sb"
  using assms by (simp add: js_slice_def hex_enc_append length_hex_enc)

lemma slice_v:
  assumes "length rb = 32" and "length sb = 32"
  shows "js_slice (''0x'' @ hex_enc (rb @ sb @ [vb])) 130 132 = hex_enc [vb]"
  using assms by (simp add: js_slice_def hex_enc_append length_hex_enc)

text \<open>\<open>indexOf\<close> finds the first occurrence.\<close>

lemma indexOf_first:
  "(\<forall>j<length pre. take (length pat) (drop j (pre @ pat @ post)) \<noteq> pat)
     \<Longrightarrow> indexOf (pre @ pat @ post) pat = int (length pre)"
proof (induction pre)
  case Nil
  have "take (length pat) (pat @ post) = pat" by simp
  then have "indexOf (pat @ post) pat = 0"
    by (cases "pat @ post") (simp_all del: take_append)
  then show ?case by simp
next
  case (Cons a pre)
  have "\<forall>j<length pre. take (length pat) (drop j (pre @ pat @ post)) \<noteq> pat"
    using Cons.prems by (metis Suc_less_eq append_Cons drop_Suc_Cons length_Cons)
  then have ih: "indexOf (pre @ pat @ post) pat = int (length pre)"
    by (rule Cons.IH)
  have "take (length pat) ((a # pre) @ pat @ post) \<noteq> pat"
    using Cons.prems by (metis drop0 length_greater_0_conv list.simps(3))
  then show ?case using ih by (simp add: Let_def)
qed

lemma substring_take: "0 \<le> i \<Longrightarrow> substring t 0 i = take (nat i) t"
  by (auto simp: substring_def Let_def min_def max_def)

lemma sign_errorMsg_first:
  assumes "message err = pre @ '' at '' @ post"
    and "\<forall>j<length pre. take 4 (drop j (message err)) \<noteq> '' at ''"
  shows "sign_errorMsg err = pre"
proof -
  have len: "length '' at '' = 4" by simp
  have "take (length '' at '') (drop j (pre @ '' at '' @ post)) \<noteq> '' at ''"
    if "j < length pre" for j
    using assms that unfolding len by metis
  then have "indexOf (pre @ '' at '' @ post) '' at '' = int (length pre)"
    by (intro indexOf_first) blast
  then show ?thesis
    by (simp add: sign_errorMsg_def assms(1) substring_take)
qed

subsection \<open>Promises\<close>

lemma await_Resolved:
  "fst p = Resolved x \<Longrightarrow> await p k = (fst (k x), snd p @ snd (k x))"
  by (cases p) (simp split: prod.splits)

lemma await_Rejected: "fst p = Rejected e \<Longrightarrow> await p k = (Pending, snd p)"
  by (cases p) simp

lemma await_Pending: "fst p = Pending \<Longrightarrow> await p k = (Pending, snd p)"
  by (cases p) simp

subsection \<open>The provider call of each strategy, and a provider error\<close>

lemma snd_ecRecover: "snd (ecRecover w account msg sig) = [PersonalEcRecover msg sig]"
  by (simp add: ecRecover_def split: callback.splits)

lemma fst_ecRecover_Err:
  "personal_ecRecover w msg sig = Err e \<Longrightarrow> fst (ecRecover w account msg sig) = Resolved (ErrorObj e)"
  by (simp add: ecRecover_def)

lemma snd_contractWalletValidate:
  "snd (contractWalletValidate im w account msg sig) =
     [EthCall account (encodeInputs im ''isValidSignature(bytes,bytes)''
        [(''_data'', JBuffer (hashPersonalMessage im (toBuffer im (JString msg)))),
         (''_signature'', JBuffer (toBuffer im (JString sig)))])]"
  by (simp add: contractWalletValidate_def Let_def split: callback.splits)

lemma fst_contractWalletValidate_Err:
  "eth_call w account (encodeInputs im ''isValidSignature(bytes,bytes)''
        [(''_data'', JBuffer (hashPersonalMessage im (toBuffer im (JString msg)))),
         (''_signature'', JBuffer (toBuffer im (JString sig)))]) = Err e
   \<Longrightarrow> fst (contractWalletValidate im w account msg sig) = Resolved (ErrorObj e)"
  by (simp add: contractWalletValidate_def Let_def)

lemma snd_contractWalletValidate2:
  "snd (contractWalletValidate2 im w account msg sig) =
     [EthCall account (encodeInputs im ''isValidSignature(bytes32,bytes)''
        [(''_data'', JBuffer (hashPersonalMessage im (toBuffer im (JString msg)))),
         (''_signature'', JBuffer (toBuffer im (JString sig)))])]"
  by (simp add: contractWalletValidate2_def Let_def split: callback.splits)

lemma fst_contractWalletValidate2_Err:
  "eth_call w account (encodeInputs im ''isValidSignature(bytes32,bytes)''
        [(''_data'', JBuffer (hashPersonalMessage im (toBuffer im (JString msg)))),
         (''_signature'', JBuffer (toBuffer im (JString sig)))]) = Err e
   \<Longrightarrow> fst (contractWalletValidate2 im w account msg sig) = Resolved (ErrorObj e)"
  by (simp add: contractWalletValidate2_def Let_def)

lemma snd_mykeyWalletValid:
  "snd (mykeyWalletValid im w account msg sig) =
     [EthCall myKeyContract (encodeInputs im ''getKeyData''
        [(''_account'', JString account), (''_index'', JNumber 3)])]"
  by (simp add: mykeyWalletValid_def Let_def split: callback.splits sum.splits)

lemma fst_mykeyWalletValid_Err:
  "eth_call w myKeyContract (encodeInputs im ''getKeyData''
        [(''_account'', JString account), (''_index'', JNumber 3)]) = Err e
   \<Longrightarrow> fst (mykeyWalletValid im w account msg sig) = Resolved (ErrorObj e)"
  by (simp add: mykeyWalletValid_def Let_def)

subsection \<open>The generic chain of personalSign, case by case\<close>

lemma generic_path:
  assumes "personal_sign w msg account '''' = Ok sig" and "\<not> isImToken win"
    and "walletType \<noteq> Some ''WalletLink''" and "walletType \<noteq> Some ''Authereum''"
  shows "personalSign im w win account msg walletType =
     called (PersonalSign msg account '''')
       (await (ecRecover w account msg sig)
          (\<lambda>valid.
            if valid_result valid then resolve (SigResp sig)
            else
              await (contractWalletValidate im w account msg sig)
                (\<lambda>walletValid.
                  if valid_result walletValid then resolve (SigResp sig)
                  else
                    await (contractWalletValidate2 im w account msg sig)
                      (\<lambda>walletValid2.
                        if valid_result walletValid2 then resolve (SigResp sig)
                        else
                          await (mykeyWalletValid im w account msg sig)
                            (\<lambda>myKeyValid.
                              if valid_result myKeyValid then resolve (SigResp sig)
                              else resolve (ErrorStr ''invalid sig''))))))"
  using assms by (simp add: personalSign_def)

lemma chain_1:
  assumes "personal_sign w msg account '''' = Ok sig" and "\<not> isImToken win"
    and "walletType \<noteq> Some ''WalletLink''" and "walletType \<noteq> Some ''Authereum''"
    and "fst (ecRecover w account msg sig) = Resolved x1" and "valid_result x1"
  shows "personalSign im w win account msg walletType =
    (Resolved (SigResp sig), PersonalSign msg account '''' # snd (ecRecover w account msg sig))"
  using assms(5,6)
  by (simp add: generic_path [OF assms(1-4)] await_Resolved resolve_def)

lemma chain_2:
  assumes "personal_sign w msg account '''' = Ok sig" and "\<not> isImToken win"
    and "walletType \<noteq> Some ''WalletLink''" and "walletType \<noteq> Some ''Authereum''"
    and "fst (ecRecover w account msg sig) = Resolved x1" and "\<not> valid_result x1"
    and "fst (contractWalletValidate im w account msg sig) = Resolved x2" and "valid_result x2"
  shows "personalSign im w win account msg walletType =
    (Resolved (SigResp sig), PersonalSign msg account '''' # snd (ecRecover w account msg sig)
       @ snd (contractWalletValidate im w account msg sig))"
  using assms(5-)
  by (simp add: generic_path [OF assms(1-4)] await_Resolved resolve_def)

lemma chain_3:
  assumes "personal_sign w msg account '''' = Ok sig" and "\<not> isImToken win"
    and "walletType \<noteq> Some ''WalletLink''" and "walletType \<noteq> Some ''Authereum''"
    and "fst (ecRecover w account msg sig) = Resolved x1" and "\<not> valid_result x1"
    and "fst (contractWalletValidate im w account msg sig) = Resolved x2" and "\<not> valid_result x2"
    and "fst (contractWalletValidate2 im w account msg sig) = Resolved x3" and "valid_result x3"
  shows "personalSign im w win account msg walletType =
    (Resolved (SigResp sig), PersonalSign msg account '''' # snd (ecRecover w account msg sig)
       @ snd (contractWalletValidate im w account msg sig)
       @ snd (contractWalletValidate2 im w account msg sig))"
  using assms(5-)
  by (simp add: generic_path [OF assms(1-4)] await_Resolved resolve_def)

lemma chain_4:
  assumes "personal_sign w msg account '''' = Ok sig" and "\<not> isImToken win"
    and "walletType \<noteq> Some ''WalletLink''" and "walletType \<noteq> Some ''Authereum''"
    and "fst (ecRecover w account msg sig) = Resolved x1" and "\<not> valid_result x1"
    and "fst (contractWalletValidate im w account msg sig) = Resolved x2" and "\<not> valid_result x2"
    and "fst (contractWalletValidate2 im w account msg sig) = Resolved x3" and "\<not> valid_result x3"
    and "fst (mykeyWalletValid im w account msg sig) = Resolved x4" and "valid_result x4"
  shows "personalSign im w win account msg walletType =
    (Resolved (SigResp sig), PersonalSign msg account '''' # snd (ecRecover w account msg sig)
       @ snd (contractWalletValidate im w account msg sig)
       @ snd (contractWalletValidate2 im w account msg sig)
       @ snd (mykeyWalletValid im w account msg sig))"
  using assms(5-)
  by (simp add: generic_path [OF assms(1-4)] await_Resolved resolve_def)

lemma chain_5:
  assumes "personal_sign w msg account '''' = Ok sig" and "\<not> isImToken win"
    and "walletType \<noteq> Some ''WalletLink''" and "walletType \<noteq> Some ''Authereum''"
    and "fst (ecRecover w account msg sig) = Resolved x1" and "\<not> valid_result x1"
    and "fst (contractWalletValidate im w account msg sig) = Resolved x2" and "\<not> valid_result x2"
    and "fst (contractWalletValidate2 im w account msg sig) = Resolved x3" and "\<not> valid_result x3"
    and "fst (mykeyWalletValid im w account msg sig) = Resolved x4" and "\<not> valid_result x4"
  shows "personalSign im w win account msg walletType =
    (Resolved (ErrorStr ''invalid sig''), PersonalSign msg account '''' # snd (ecRecover w account msg sig)
       @ snd (contractWalletValidate im w account msg sig)
       @ snd (contractWalletValidate2 im w account msg sig)
       @ snd (mykeyWalletValid im w account msg sig))"
  using assms(5-)
  by (simp add: generic_path [OF assms(1-4)] await_Resolved resolve_def)

subsection \<open>The single-strategy paths, recovery that throws, and the merged transaction\<close>

lemma walletLink_path:
  assumes "personal_sign w msg account '''' = Ok sig" and "\<not> isImToken win"
    and "walletType = Some ''WalletLink''"
  shows "personalSign im w win account msg walletType =
     called (PersonalSign msg account '''')
       (await (walletLinkValid im w account msg sig)
          (\<lambda>valid.
            if valid_result valid then resolve (SigResp sig)
            else resolve (ErrorStr ''Failed to valid using WalletLink'')))"
  using assms by (simp add: personalSign_def)

lemma authereum_path:
  assumes "personal_sign w msg account '''' = Ok sig" and "\<not> isImToken win"
    and "walletType = Some ''Authereum''"
  shows "personalSign im w win account msg walletType =
     called (PersonalSign msg account '''')
       (await (authereumValid im w account msg sig)
          (\<lambda>valid.
            if valid_result valid then resolve (SigResp sig)
            else resolve (ErrorStr ''invalid sig using Authereum'')))"
  using assms by (simp add: personalSign_def)

lemma walletLinkValid_throws:
  assumes "fromRpcSig im sig = Inl e
           \<or> (\<exists>sg. fromRpcSig im sig = Inr sg
                 \<and> ecrecover im (hashPersonalMessage im (toBuffer im (JString msg)))
                       (sig_v sg) (sig_r sg) (sig_s sg) = Inl e)"
  shows "walletLinkValid im w account msg sig = (Rejected e, [])"
  using assms by (auto simp: walletLinkValid_def Let_def)

lemma mykeyWalletValid_throws:
  assumes "eth_call w myKeyContract
             (encodeInputs im ''getKeyData''
                [(''_account'', JString account), (''_index'', JNumber 3)]) = Ok res"
    and "fromRpcSig im sig = Inl e
         \<or> (\<exists>sg. fromRpcSig im sig = Inr sg
               \<and> ecrecover im (hashPersonalMessage im (keccak256 im (toBuffer im (JString msg))))
                     (sig_v sg) (sig_r sg) (sig_s sg) = Inl e)"
  shows "fst (mykeyWalletValid im w account msg sig) = Pending"
  using assms by (auto simp: mykeyWalletValid_def Let_def)

lemma map_of_assign_signature:
  "map_of (assign_signature ethTx sg)
     = (map_of ethTx)(''r'' \<mapsto> JString (r sg), ''s'' \<mapsto> JString (s sg), ''v'' \<mapsto> JNumber (v sg))"
  by (simp add: assign_signature_def update_conv')

lemma snd_sign: "snd (sign im w account hash) = [EthSign hash account]"
  by (simp add: sign_def split: callback.splits)

section \<open>The claims\<close>

subsection \<open>C1: the generic chain\<close>

text \<open>
  Claim C1, amended in its last words. The sign call succeeded with \<open>sig\<close>, the provider is
  not imToken and the wallet type is neither \<open>'WalletLink'\<close> nor \<open>'Authereum'\<close>.
  Then \<open>personalSign\<close> runs \<open>ecRecover\<close>, \<open>contractWalletValidate\<close>,
  \<open>contractWalletValidate2\<close> and \<open>mykeyWalletValid\<close> in this order. Each makes one
  provider call (\<open>snd\<close> of a strategy is the list of its calls). The first strategy whose
  \<open>result\<close> is truthy ends the chain with \<open>{ sig }\<close>, and the calls made are those
  of the strategies up to it and no others. A strategy whose provider call reports an
  error resolves with \<open>{ error }\<close>, whose \<open>result\<close> is falsy, so the chain goes on.
  When all four have resolved without a truthy \<open>result\<close> the outcome is
  \<open>{ error: 'invalid sig' }\<close>: the reason is \<open>invalid sig\<close>, where the claim
  names \<open>invalid signature\<close>.
\<close>

theorem personalSign_generic_chain:
  assumes "personal_sign w msg account '''' = Ok sig"
    and "\<not> isImToken win"
    and "walletType \<noteq> Some ''WalletLink''" and "walletType \<noteq> Some ''Authereum''"
  shows
    "(let out = personalSign im w win account msg walletType;
          ev = PersonalSign msg account '''';
          hash = hashPersonalMessage im (toBuffer im (JString msg));
          args = [(''_data'', JBuffer hash), (''_signature'', JBuffer (toBuffer im (JString sig)))];
          d2 = encodeInputs im ''isValidSignature(bytes,bytes)'' args;
          d3 = encodeInputs im ''isValidSignature(bytes32,bytes)'' args;
          d4 = encodeInputs im ''getKeyData'' [(''_account'', JString account), (''_index'', JNumber 3)];
          s1 = ecRecover w account msg sig;
          s2 = contractWalletValidate im w account msg sig;
          s3 = contractWalletValidate2 im w account msg sig;
          s4 = mykeyWalletValid im w account msg sig
      in snd s1 = [PersonalEcRecover msg sig] \<and> snd s2 = [EthCall account d2]
         \<and> snd s3 = [EthCall account d3] \<and> snd s4 = [EthCall myKeyContract d4]
         \<and> (\<forall>x1. fst s1 = Resolved x1 \<and> valid_result x1
              \<longrightarrow> out = (Resolved (SigResp sig), ev # snd s1))
         \<and> (\<forall>x1 x2. fst s1 = Resolved x1 \<and> \<not> valid_result x1
                \<and> fst s2 = Resolved x2 \<and> valid_result x2
              \<longrightarrow> out = (Resolved (SigResp sig), ev # snd s1 @ snd s2))
         \<and> (\<forall>x1 x2 x3. fst s1 = Resolved x1 \<and> \<not> valid_result x1
                \<and> fst s2 = Resolved x2 \<and> \<not> valid_result x2
                \<and> fst s3 = Resolved x3 \<and> valid_result x3
              \<longrightarrow> out = (Resolved (SigResp sig), ev # snd s1 @ snd s2 @ snd s3))
         \<and> (\<forall>x1 x2 x3 x4. fst s1 = Resolved x1 \<and> \<not> valid_result x1
                \<and> fst s2 = Resolved x2 \<and> \<not> valid_result x2
                \<and> fst s3 = Resolved x3 \<and> \<not> valid_result x3
                \<and> fst s4 = Resolved x4 \<and> valid_result x4
              \<longrightarrow> out = (Resolved (SigResp sig), ev # snd s1 @ snd s2 @ snd s3 @ snd s4))
         \<and> (\<forall>x1 x2 x3 x4. fst s1 = Resolved x1 \<and> \<not> valid_result x1
                \<and> fst s2 = Resolved x2 \<and> \<not> valid_result x2
                \<and> fst s3 = Resolved x3 \<and> \<not> valid_result x3
                \<and> fst s4 = Resolved x4 \<and> \<not> valid_result x4
              \<longrightarrow> out = (Resolved (ErrorStr ''invalid sig''), ev # snd s1 @ snd s2 @ snd s3 @ snd s4))
         \<and> (\<forall>e. personal_ecRecover w msg sig = Err e \<longrightarrow> fst s1 = Resolved (ErrorObj e))
         \<and> (\<forall>e. eth_call w account d2 = Err e \<longrightarrow> fst s2 = Resolved (ErrorObj e))
         \<and> (\<forall>e. eth_call w account d3 = Err e \<longrightarrow> fst s3 = Resolved (ErrorObj e))
         \<and> (\<forall>e. eth_call w myKeyContract d4 = Err e \<longrightarrow> fst s4 = Resolved (ErrorObj e))
         \<and> (\<forall>e. \<not> valid_result (ErrorObj e)))"
  unfolding Let_def
proof (intro conjI allI impI)
  fix x1 assume "fst (ecRecover w account msg sig) = Resolved x1 \<and> valid_result x1"
  then show "personalSign im w win account msg walletType =
     (Resolved (SigResp sig), PersonalSign msg account '''' # snd (ecRecover w account msg sig))"
    using chain_1 [OF assms] by blast
next
  fix x1 x2
  assume "fst (ecRecover w account msg sig) = Resolved x1 \<and> \<not> valid_result x1
     \<and> fst (contractWalletValidate im w account msg sig) = Resolved x2 \<and> valid_result x2"
  then show "personalSign im w win account msg walletType =
     (Resolved (SigResp sig), PersonalSign msg account '''' # snd (ecRecover w account msg sig)
        @ snd (contractWalletValidate im w account msg sig))"
    using chain_2 [OF assms] by blast
next
  fix x1 x2 x3
  assume "fst (ecRecover w account msg sig) = Resolved x1 \<and> \<not> valid_result x1
     \<and> fst (contractWalletValidate im w account msg sig) = Resolved x2 \<and> \<not> valid_result x2
     \<and> fst (contractWalletValidate2 im w account msg sig) = Resolved x3 \<and> valid_result x3"
  then show "personalSign im w win account msg walletType =
     (Resolved (SigResp sig), PersonalSign msg account '''' # snd (ecRecover w account msg sig)
        @ snd (contractWalletValidate im w account msg sig)
        @ snd (contractWalletValidate2 im w account msg sig))"
    using chain_3 [OF assms] by blast
next
  fix x1 x2 x3 x4
  assume "fst (ecRecover w account msg sig) = Resolved x1 \<and> \<not> valid_result x1
     \<and> fst (contractWalletValidate im w account msg sig) = Resolved x2 \<and> \<not> valid_result x2
     \<and> fst (contractWalletValidate2 im w account msg sig) = Resolved x3 \<and> \<not> valid_result x3
     \<and> fst (mykeyWalletValid im w account msg sig) = Resolved x4 \<and> valid_result x4"
  then show "personalSign im w win account msg walletType =
     (Resolved (SigResp sig), PersonalSign msg account '''' # snd (ecRecover w account msg sig)
        @ snd (contractWalletValidate im w account msg sig)
        @ snd (contractWalletValidate2 im w account msg sig)
        @ snd (mykeyWalletValid im w account msg sig))"
    using chain_4 [OF assms] by blast
next
  fix x1 x2 x3 x4
  assume "fst (ecRecover w account msg sig) = Resolved x1 \<and> \<not> valid_result x1
     \<and> fst (contractWalletValidate im w account msg sig) = Resolved x2 \<and> \<not> valid_result x2
     \<and> fst (contractWalletValidate2 im w account msg sig) = Resolved x3 \<and> \<not> valid_result x3
     \<and> fst (mykeyWalletValid im w account msg sig) = Resolved x4 \<and> \<not> valid_result x4"
  then show "personalSign im w win account msg walletType =
     (Resolved (ErrorStr ''invalid sig''), PersonalSign msg account '''' # snd (ecRecover w account msg sig)
        @ snd (contractWalletValidate im w account msg sig)
        @ snd (contractWalletValidate2 im w account msg sig)
        @ snd (mykeyWalletValid im w account msg sig))"
    using chain_5 [OF assms] by blast
qed (simp_all add: snd_ecRecover snd_contractWalletValidate snd_contractWalletValidate2
       snd_mykeyWalletValid fst_ecRecover_Err fst_contractWalletValidate_Err
       fst_contractWalletValidate2_Err fst_mykeyWalletValid_Err)

text \<open>
  An instance: the account \<open>0xc2\<close> is a contract wallet of the \<open>bytes32\<close> variant.
  The provider's \<open>ecRecover\<close> names another address, the call of the first contract
  variant reverts, the second verifies, and the registry is never asked.
\<close>

theorem personalSign_generic_chain_witness:
  "personalSign sample_im (sample_web3 (Ok sample_sig)) plain_window ''0xc2'' ''hi'' None =
     (Resolved (SigResp sample_sig),
      [PersonalSign ''hi'' ''0xc2'' '''', PersonalEcRecover ''hi'' sample_sig,
       EthCall ''0xc2'' (''0x20c13b0b196869'' @ drop 2 sample_sig),
       EthCall ''0xc2'' (''0x1626ba7e196869'' @ drop 2 sample_sig)])"
proof -
  let ?w = "sample_web3 (Ok sample_sig)"
  have h1: "personal_sign ?w ''hi'' ''0xc2'' '''' = Ok sample_sig"
    by (simp add: sample_web3_def)
  have h2: "\<not> isImToken plain_window"
    by (simp add: isImToken_def plain_window_def)
  have h3: "None \<noteq> Some ''WalletLink''" and h4: "None \<noteq> Some ''Authereum''"
    by simp_all
  have e1: "fst (ecRecover ?w ''0xc2'' ''hi'' sample_sig) = Resolved (ResultObj False)"
    by code_simp
  have e2: "fst (contractWalletValidate sample_im ?w ''0xc2'' ''hi'' sample_sig)
              = Resolved (ErrorObj (JsError ''execution reverted''))"
    by code_simp
  have e3: "fst (contractWalletValidate2 sample_im ?w ''0xc2'' ''hi'' sample_sig)
              = Resolved (ResultObj True)"
    by code_simp
  have l1: "snd (ecRecover ?w ''0xc2'' ''hi'' sample_sig) = [PersonalEcRecover ''hi'' sample_sig]"
    by code_simp
  have l2: "snd (contractWalletValidate sample_im ?w ''0xc2'' ''hi'' sample_sig)
              = [EthCall ''0xc2'' (''0x20c13b0b196869'' @ drop 2 sample_sig)]"
    by code_simp
  have l3: "snd (contractWalletValidate2 sample_im ?w ''0xc2'' ''hi'' sample_sig)
              = [EthCall ''0xc2'' (''0x1626ba7e196869'' @ drop 2 sample_sig)]"
    by code_simp
  have "\<forall>x1 x2 x3.
          fst (ecRecover ?w ''0xc2'' ''hi'' sample_sig) = Resolved x1 \<and> \<not> valid_result x1
          \<and> fst (contractWalletValidate sample_im ?w ''0xc2'' ''hi'' sample_sig) = Resolved x2
          \<and> \<not> valid_result x2
          \<and> fst (contractWalletValidate2 sample_im ?w ''0xc2'' ''hi'' sample_sig) = Resolved x3
          \<and> valid_result x3
          \<longrightarrow> personalSign sample_im ?w plain_window ''0xc2'' ''hi'' None
               = (Resolved (SigResp sample_sig),
                  PersonalSign ''hi'' ''0xc2'' '''' # snd (ecRecover ?w ''0xc2'' ''hi'' sample_sig)
                  @ snd (contractWalletValidate sample_im ?w ''0xc2'' ''hi'' sample_sig)
                  @ snd (contractWalletValidate2 sample_im ?w ''0xc2'' ''hi'' sample_sig))"
    using personalSign_generic_chain [OF h1 h2 h3 h4, of sample_im]
    unfolding Let_def by (elim conjE)
  then show ?thesis
    using e1 e2 e3 by (simp add: l1 l2 l3)
qed

text \<open>
  Claim C1 as stated fails on the reason: for the account \<open>0xe0a\<close> all four
  strategies resolve without a truthy \<open>result\<close>, and the outcome carries
  \<open>'invalid sig'\<close>, not \<open>'invalid signature'\<close>.
\<close>

theorem personalSign_reason_counterexample:
  "fst (ecRecover (sample_web3 (Ok sample_sig)) ''0xe0a'' ''hi'' sample_sig)
     = Resolved (ResultObj False)
   \<and> fst (contractWalletValidate sample_im (sample_web3 (Ok sample_sig)) ''0xe0a'' ''hi'' sample_sig)
     = Resolved (ErrorObj (JsError ''execution reverted''))
   \<and> fst (contractWalletValidate2 sample_im (sample_web3 (Ok sample_sig)) ''0xe0a'' ''hi'' sample_sig)
     = Resolved (ErrorObj (JsError ''execution reverted''))
   \<and> fst (mykeyWalletValid sample_im (sample_web3 (Ok sample_sig)) ''0xe0a'' ''hi'' sample_sig)
     = Resolved (ResultObj False)
   \<and> fst (personalSign sample_im (sample_web3 (Ok sample_sig)) plain_window ''0xe0a'' ''hi'' None)
     = Resolved (ErrorStr ''invalid sig'')
   \<and> fst (personalSign sample_im (sample_web3 (Ok sample_sig)) plain_window ''0xe0a'' ''hi'' None)
     \<noteq> Resolved (ErrorStr ''invalid signature'')"
  by code_simp

subsection \<open>C2: the imToken provider\<close>

text \<open>
  Claim C2. When the sign call succeeds and the window shows an imToken provider
  (\<open>window.imToken\<close> is truthy, or \<open>window.ethereum.isImToken\<close> is), \<open>personalSign\<close>
  resolves with \<open>{ sig }\<close> and the sign request is the only provider call: no strategy
  runs. This holds for every wallet type, every set of imported functions and every
  answer the provider would give to \<open>ecRecover\<close> or \<open>call\<close>, so the outcome does not
  depend on whether the signature is authentic.
\<close>

theorem personalSign_imToken_accepts:
  assumes "personal_sign w msg account '''' = Ok sig" and "isImToken win"
  shows "personalSign im w win account msg walletType
           = (Resolved (SigResp sig), [PersonalSign msg account ''''])"
  using assms by (simp add: personalSign_def resolve_def)

text \<open>
  An instance: local recovery finds that the signature is not the account's, and with
  imToken it is accepted all the same.
\<close>

theorem personalSign_imToken_accepts_witness:
  "fst (walletLinkValid sample_im (sample_web3 (Ok sample_sig)) ''0xe0a'' ''hi'' sample_sig)
     = Resolved (ResultObj False)
   \<and> personalSign sample_im (sample_web3 (Ok sample_sig)) imToken_window ''0xe0a'' ''hi''
         (Some ''WalletLink'')
     = (Resolved (SigResp sample_sig), [PersonalSign ''hi'' ''0xe0a'' ''''])"
proof -
  have h1: "personal_sign (sample_web3 (Ok sample_sig)) ''hi'' ''0xe0a'' '''' = Ok sample_sig"
    by (simp add: sample_web3_def)
  have h2: "isImToken imToken_window"
    by (simp add: isImToken_def imToken_window_def)
  have "fst (walletLinkValid sample_im (sample_web3 (Ok sample_sig)) ''0xe0a'' ''hi'' sample_sig)
          = Resolved (ResultObj False)"
    by code_simp
  then show ?thesis
    using personalSign_imToken_accepts [OF h1 h2, of sample_im "Some ''WalletLink''"] by simp
qed

subsection \<open>C3: a signature that cannot be recovered\<close>

text \<open>
  Claim C3 is not what the code does. The sign call succeeded and the provider is not
  imToken; \<open>fromRpcSig\<close> or \<open>ecrecover\<close> throws \<open>e\<close> on the signature. With the
  wallet type \<open>'WalletLink'\<close> the promise of \<open>walletLinkValid\<close> is rejected with
  \<open>e\<close>, the \<open>await\<close> in the callback of \<open>personalSign\<close> throws, and the promise that
  \<open>personalSign\<close> returned never settles: the caller gets neither an error nor a
  rejection. In the generic chain, when the first three strategies have not verified and
  the registry call succeeds, the exception is thrown inside the callback of
  \<open>mykeyWalletValid\<close>, whose promise never settles, and \<open>personalSign\<close> never
  settles either.
\<close>

theorem malformed_signature_never_settles:
  assumes "personal_sign w msg account '''' = Ok sig" and "\<not> isImToken win"
  shows
    "(walletType = Some ''WalletLink''
        \<and> (fromRpcSig im sig = Inl e
            \<or> (\<exists>sg. fromRpcSig im sig = Inr sg
                  \<and> ecrecover im (hashPersonalMessage im (toBuffer im (JString msg)))
                        (sig_v sg) (sig_r sg) (sig_s sg) = Inl e))
      \<longrightarrow> walletLinkValid im w account msg sig = (Rejected e, [])
          \<and> personalSign im w win account msg walletType
              = (Pending, [PersonalSign msg account '''']))
     \<and> (walletType \<noteq> Some ''WalletLink'' \<and> walletType \<noteq> Some ''Authereum''
        \<and> fst (ecRecover w account msg sig) = Resolved x1 \<and> \<not> valid_result x1
        \<and> fst (contractWalletValidate im w account msg sig) = Resolved x2 \<and> \<not> valid_result x2
        \<and> fst (contractWalletValidate2 im w account msg sig) = Resolved x3 \<and> \<not> valid_result x3
        \<and> eth_call w myKeyContract
             (encodeInputs im ''getKeyData''
                [(''_account'', JString account), (''_index'', JNumber 3)]) = Ok res
        \<and> (fromRpcSig im sig = Inl e
            \<or> (\<exists>sg. fromRpcSig im sig = Inr sg
                  \<and> ecrecover im (hashPersonalMessage im (keccak256 im (toBuffer im (JString msg))))
                        (sig_v sg) (sig_r sg) (sig_s sg) = Inl e))
      \<longrightarrow> fst (mykeyWalletValid im w account msg sig) = Pending
          \<and> fst (personalSign im w win account msg walletType) = Pending)"
proof (intro conjI impI)
  assume a: "walletType = Some ''WalletLink''
        \<and> (fromRpcSig im sig = Inl e
            \<or> (\<exists>sg. fromRpcSig im sig = Inr sg
                  \<and> ecrecover im (hashPersonalMessage im (toBuffer im (JString msg)))
                        (sig_v sg) (sig_r sg) (sig_s sg) = Inl e))"
  then show r: "walletLinkValid im w account msg sig = (Rejected e, [])"
    using walletLinkValid_throws by blast
  from a have "walletType = Some ''WalletLink''" by simp
  then show "personalSign im w win account msg walletType = (Pending, [PersonalSign msg account ''''])"
    by (simp add: walletLink_path [OF assms] r)
next
  assume b: "walletType \<noteq> Some ''WalletLink'' \<and> walletType \<noteq> Some ''Authereum''
        \<and> fst (ecRecover w account msg sig) = Resolved x1 \<and> \<not> valid_result x1
        \<and> fst (contractWalletValidate im w account msg sig) = Resolved x2 \<and> \<not> valid_result x2
        \<and> fst (contractWalletValidate2 im w account msg sig) = Resolved x3 \<and> \<not> valid_result x3
        \<and> eth_call w myKeyContract
             (encodeInputs im ''getKeyData''
                [(''_account'', JString account), (''_index'', JNumber 3)]) = Ok res
        \<and> (fromRpcSig im sig = Inl e
            \<or> (\<exists>sg. fromRpcSig im sig = Inr sg
                  \<and> ecrecover im (hashPersonalMessage im (keccak256 im (toBuffer im (JString msg))))
                        (sig_v sg) (sig_r sg) (sig_s sg) = Inl e))"
  then show p: "fst (mykeyWalletValid im w account msg sig) = Pending"
    using mykeyWalletValid_throws by blast
  from b have g: "walletType \<noteq> Some ''WalletLink''" "walletType \<noteq> Some ''Authereum''"
    and s: "fst (ecRecover w account msg sig) = Resolved x1" "\<not> valid_result x1"
      "fst (contractWalletValidate im w account msg sig) = Resolved x2" "\<not> valid_result x2"
      "fst (contractWalletValidate2 im w account msg sig) = Resolved x3" "\<not> valid_result x3"
    by simp_all
  show "fst (personalSign im w win account msg walletType) = Pending"
    using s p
    by (simp add: generic_path [OF assms g] await_Resolved await_Pending)
qed

text \<open>An instance: the provider signs with a string of two bytes.\<close>

theorem malformed_signature_never_settles_witness:
  "walletLinkValid sample_im (sample_web3 (Ok short_sig)) ''0xe0a'' ''hi'' short_sig
     = (Rejected (JsError ''Invalid signature length''), [])
   \<and> personalSign sample_im (sample_web3 (Ok short_sig)) plain_window ''0xe0a'' ''hi''
         (Some ''WalletLink'')
     = (Pending, [PersonalSign ''hi'' ''0xe0a'' ''''])
   \<and> fst (mykeyWalletValid sample_im (sample_web3 (Ok short_sig)) ''0x4d4b'' ''hi'' short_sig)
     = Pending
   \<and> fst (personalSign sample_im (sample_web3 (Ok short_sig)) plain_window ''0x4d4b'' ''hi'' None)
     = Pending"
proof -
  let ?w = "sample_web3 (Ok short_sig)"
  let ?e = "JsError ''Invalid signature length''"
  have h1: "personal_sign ?w ''hi'' a '''' = Ok short_sig" for a
    by (simp add: sample_web3_def)
  have h2: "\<not> isImToken plain_window"
    by (simp add: isImToken_def plain_window_def)
  have f: "fromRpcSig sample_im short_sig = Inl ?e"
    by code_simp
  have s1: "fst (ecRecover ?w ''0x4d4b'' ''hi'' short_sig)
              = Resolved (ErrorObj (JsError ''invalid signature length''))"
    by code_simp
  have s2: "fst (contractWalletValidate sample_im ?w ''0x4d4b'' ''hi'' short_sig)
              = Resolved (ErrorObj (JsError ''execution reverted''))"
    by code_simp
  have s3: "fst (contractWalletValidate2 sample_im ?w ''0x4d4b'' ''hi'' short_sig)
              = Resolved (ErrorObj (JsError ''execution reverted''))"
    by code_simp
  have c: "eth_call ?w myKeyContract
             (encodeInputs sample_im ''getKeyData''
                [(''_account'', JString ''0x4d4b''), (''_index'', JNumber 3)]) = Ok ''0x1969ABCD''"
    by code_simp
  have "walletLinkValid sample_im ?w ''0xe0a'' ''hi'' short_sig = (Rejected ?e, [])
        \<and> personalSign sample_im ?w plain_window ''0xe0a'' ''hi'' (Some ''WalletLink'')
            = (Pending, [PersonalSign ''hi'' ''0xe0a'' ''''])"
    using malformed_signature_never_settles [OF h1 h2, of "Some ''WalletLink''" sample_im ?e] f
    by blast
  moreover have "fst (mykeyWalletValid sample_im ?w ''0x4d4b'' ''hi'' short_sig) = Pending
        \<and> fst (personalSign sample_im ?w plain_window ''0x4d4b'' ''hi'' None) = Pending"
    using malformed_signature_never_settles [OF h1 h2, of None sample_im ?e "''0x4d4b''"
        "ErrorObj (JsError ''invalid signature length'')"
        "ErrorObj (JsError ''execution reverted'')"
        "ErrorObj (JsError ''execution reverted'')" "''0x1969ABCD''"] f s1 s2 s3 c
    by simp
  ultimately show ?thesis by blast
qed

subsection \<open>C4: an error of the sign call\<close>

text \<open>
  Claim C4, amended. When the sign call of \<open>personalSign\<close> reports an error, the
  outcome is \<open>{ error: err }\<close> with the provider's error object unchanged, and the sign
  request is the only provider call: no strategy runs. The trimming belongs to \<open>sign\<close>:
  when its sign call reports an error whose message contains \<open>' at '\<close>, \<open>sign\<close>
  resolves with \<open>{ error: { message } }\<close> where the message is the text before the
  first \<open>' at '\<close>.
\<close>

theorem sign_error_short_circuit:
  "(personal_sign w msg account '''' = Err err
      \<longrightarrow> personalSign im w win account msg walletType
            = (Resolved (ErrorErr err), [PersonalSign msg account '''']))
   \<and> (eth_sign w hash account = Err err \<and> message err = pre @ '' at '' @ post
        \<and> (\<forall>j<length pre. take 4 (drop j (message err)) \<noteq> '' at '')
      \<longrightarrow> sign im w account hash = (Resolved (SignError pre), [EthSign hash account]))"
proof (intro conjI impI)
  assume "personal_sign w msg account '''' = Err err"
  then show "personalSign im w win account msg walletType
               = (Resolved (ErrorErr err), [PersonalSign msg account ''''])"
    by (simp add: personalSign_def resolve_def)
next
  assume a: "eth_sign w hash account = Err err \<and> message err = pre @ '' at '' @ post
        \<and> (\<forall>j<length pre. take 4 (drop j (message err)) \<noteq> '' at '')"
  then have "sign_errorMsg err = pre"
    using sign_errorMsg_first by blast
  with a show "sign im w account hash = (Resolved (SignError pre), [EthSign hash account])"
    by (simp add: sign_def)
qed

text \<open>An instance, with a message that carries a stack location.\<close>

theorem sign_error_short_circuit_witness:
  "personalSign sample_im (sample_web3 (Err denied)) plain_window ''0xe0a'' ''hi''
       (Some ''Authereum'')
     = (Resolved (ErrorErr denied), [PersonalSign ''hi'' ''0xe0a'' ''''])
   \<and> sign sample_im (sample_web3 (Err denied)) ''0xe0a'' ''0x1234''
     = (Resolved (SignError ''User denied message signature.''), [EthSign ''0x1234'' ''0xe0a''])"
proof -
  let ?w = "sample_web3 (Err denied)"
  have h1: "personal_sign ?w ''hi'' ''0xe0a'' '''' = Err denied"
    by (simp add: sample_web3_def)
  have h2: "eth_sign ?w ''0x1234'' ''0xe0a'' = Err denied"
    by (simp add: sample_web3_def)
  have h3: "message denied = ''User denied message signature.'' @ '' at ''
              @ ''Object.sign (inpage.js:1)''"
    by code_simp
  have h4: "\<forall>j<length ''User denied message signature.''.
              take 4 (drop j (message denied)) \<noteq> '' at ''"
    by (simp add: denied_def eval_nat_numeral All_less_Suc)
  show ?thesis
    using sign_error_short_circuit [of ?w "''hi''" "''0xe0a''" denied sample_im plain_window
        "Some ''Authereum''" "''0x1234''" "''User denied message signature.''"
        "''Object.sign (inpage.js:1)''"] h1 h2 h3 h4
    by blast
qed

text \<open>
  Claim C4 as stated fails: \<open>personalSign\<close> resolves with the provider's error
  object as it is. For a message with a stack location the surfaced message still holds
  the location, while the trimming of \<open>sign\<close> would cut it.
\<close>

theorem personalSign_error_untrimmed_counterexample:
  "personalSign sample_im (sample_web3 (Err denied)) plain_window ''0xe0a'' ''hi'' None
     = (Resolved (ErrorErr denied), [PersonalSign ''hi'' ''0xe0a'' ''''])
   \<and> message denied = ''User denied message signature. at Object.sign (inpage.js:1)''
   \<and> sign_errorMsg denied = ''User denied message signature.''
   \<and> message denied \<noteq> sign_errorMsg denied"
  by code_simp

subsection \<open>C5: the split of the signature string\<close>

text \<open>
  Claim C5. The sign call delivers \<open>0x\<close> followed by the hexadecimal digits of 65
  bytes: 32 bytes \<open>rb\<close>, 32 bytes \<open>sb\<close> and a last byte \<open>vb\<close>. Then \<open>sign\<close>
  resolves with \<open>r\<close> the first 32 bytes (with the \<open>0x\<close>), \<open>s\<close> the next 32 bytes
  (prefixed by \<open>addHexPrefix\<close>) and \<open>v\<close> the number \<open>n\<close> that \<open>toNumber\<close> reads from
  the last byte, replaced by \<open>n + 27\<close> exactly when \<open>n\<close> is 0 or 1; in that case
  \<open>v\<close> is 27 or 28. A second provider \<open>w'\<close> delivers the same signature with a last
  byte that reads \<open>n + 27\<close>: both give the same \<open>(r, s, v)\<close>.
\<close>

theorem sign_splits_signature:
  assumes "length rb = 32" and "length sb = 32"
    and "eth_sign w hash account = Ok (''0x'' @ hex_enc (rb @ sb @ [vb]))"
    and "eth_sign w' hash account = Ok (''0x'' @ hex_enc (rb @ sb @ [vb']))"
  shows
    "(let n = toNumber im (addHexPrefix im (JString (hex_enc [vb])));
          n' = toNumber im (addHexPrefix im (JString (hex_enc [vb'])));
          sg = \<lparr>r = ''0x'' @ hex_enc rb,
                s = addHexPrefix im (JString (hex_enc sb)),
                v = (if n = 0 \<or> n = 1 then n + 27 else n)\<rparr>
      in sign im w account hash = (Resolved (SignResult sg), [EthSign hash account])
         \<and> (n = 0 \<or> n = 1 \<longrightarrow> v sg = 27 \<or> v sg = 28)
         \<and> ((n = 0 \<or> n = 1) \<and> n' = n + 27
              \<longrightarrow> sign im w' account hash = sign im w account hash))"
proof -
  have a: "sign_result im (''0x'' @ hex_enc (rb @ sb @ [x])) =
             \<lparr>r = ''0x'' @ hex_enc rb,
              s = addHexPrefix im (JString (hex_enc sb)),
              v = (let n = toNumber im (addHexPrefix im (JString (hex_enc [x])))
                   in if n = 0 \<or> n = 1 then n + 27 else n)\<rparr>" for x
    using slice_r [OF assms(1), of "sb @ [x]"] slice_s [OF assms(1,2), of "[x]"]
      slice_v [OF assms(1,2), of x]
    by (simp add: sign_result_def Let_def)
  show ?thesis
    unfolding sign_def assms(3,4) callback.case a
    by (auto simp: Let_def)
qed

text \<open>An instance: a last byte of \<open>00\<close> and a last byte of \<open>1b\<close> both give 27.\<close>

theorem sign_splits_signature_witness:
  "sign sample_im (sample_web3 (Ok (''0x'' @ hex_enc (replicate 32 171 @ replicate 32 17 @ [0]))))
       ''0xe0a'' ''0x1234''
     = (Resolved (SignResult \<lparr>r = ''0x'' @ hex_enc (replicate 32 171),
                               s = ''0x'' @ hex_enc (replicate 32 17), v = 27\<rparr>),
        [EthSign ''0x1234'' ''0xe0a''])
   \<and> sign sample_im (sample_web3 (Ok (''0x'' @ hex_enc (replicate 32 171 @ replicate 32 17 @ [27]))))
       ''0xe0a'' ''0x1234''
     = sign sample_im (sample_web3 (Ok (''0x'' @ hex_enc (replicate 32 171 @ replicate 32 17 @ [0]))))
       ''0xe0a'' ''0x1234''"
proof -
  let ?rb = "replicate 32 171 :: bytes" and ?sb = "replicate 32 17 :: bytes"
  let ?w = "sample_web3 (Ok (''0x'' @ hex_enc (?rb @ ?sb @ [0])))"
  let ?w' = "sample_web3 (Ok (''0x'' @ hex_enc (?rb @ ?sb @ [27])))"
  have h1: "length ?rb = 32" and h2: "length ?sb = 32"
    by simp_all
  have h3: "eth_sign ?w ''0x1234'' ''0xe0a'' = Ok (''0x'' @ hex_enc (?rb @ ?sb @ [0]))"
    by (simp add: sample_web3_def)
  have h4: "eth_sign ?w' ''0x1234'' ''0xe0a'' = Ok (''0x'' @ hex_enc (?rb @ ?sb @ [27]))"
    by (simp add: sample_web3_def)
  have n0: "toNumber sample_im (addHexPrefix sample_im (JString (hex_enc [0]))) = 0"
    by code_simp
  have n27: "toNumber sample_im (addHexPrefix sample_im (JString (hex_enc [27]))) = 27"
    by code_simp
  have p: "addHexPrefix sample_im (JString (hex_enc ?sb)) = ''0x'' @ hex_enc ?sb"
    by code_simp
  show ?thesis
    using sign_splits_signature [OF h1 h2 h3 h4, of sample_im]
    by (simp add: Let_def n0 n27 p)
qed

subsection \<open>C6: the MyKey registry\<close>

text \<open>
  Claim C6. \<open>mykeyWalletValid\<close> makes one provider call: to the fixed registry
  address, with \<open>getKeyData\<close> encoded for the account and the index 3. It resolves with
  \<open>{ result: true }\<close> exactly when that call returned, the signature was decomposed by
  \<open>fromRpcSig\<close>, a key was recovered from \<open>hashPersonalMessage(keccak256(msg))\<close> and
  the signature's \<open>(v, r, s)\<close>, and the address of the key equals the address the
  registry returned once both are in lower case. The account takes part only through
  the registry's answer: two accounts for which the registry answers the same get the same
  verdict.
\<close>

theorem mykeyWalletValid_registry:
  "(let data = encodeInputs im ''getKeyData''
                 [(''_account'', JString account), (''_index'', JNumber 3)];
        hash = hashPersonalMessage im (keccak256 im (toBuffer im (JString msg)));
        out = mykeyWalletValid im w account msg sig
    in myKeyContract = ''0xADc92d1fD878580579716d944eF3460E241604b7''
       \<and> snd out = [EthCall myKeyContract data]
       \<and> (fst out = Resolved (ResultObj True) \<longleftrightarrow>
            (\<exists>res sg pub.
               eth_call w myKeyContract data = Ok res
               \<and> fromRpcSig im sig = Inr sg
               \<and> ecrecover im hash (sig_v sg) (sig_r sg) (sig_s sg) = Inr pub
               \<and> toLowerCase (toHex im (pubToAddress im pub))
                   = toLowerCase (addHexPrefix im (index0 (decodeOutputs im ''getKeyData'' res)))))
       \<and> (\<forall>account'.
             eth_call w myKeyContract
               (encodeInputs im ''getKeyData''
                  [(''_account'', JString account'), (''_index'', JNumber 3)])
             = eth_call w myKeyContract data
             \<longrightarrow> fst (mykeyWalletValid im w account' msg sig) = fst out))"
proof -
  let ?data = "encodeInputs im ''getKeyData''
                 [(''_account'', JString account), (''_index'', JNumber 3)]"
  let ?hash = "hashPersonalMessage im (keccak256 im (toBuffer im (JString msg)))"
  have verdict: "fst (mykeyWalletValid im w account msg sig) = Resolved (ResultObj True) \<longleftrightarrow>
            (\<exists>res sg pub.
               eth_call w myKeyContract ?data = Ok res
               \<and> fromRpcSig im sig = Inr sg
               \<and> ecrecover im ?hash (sig_v sg) (sig_r sg) (sig_s sg) = Inr pub
               \<and> toLowerCase (toHex im (pubToAddress im pub))
                   = toLowerCase (addHexPrefix im (index0 (decodeOutputs im ''getKeyData'' res))))"
    by (auto simp: mykeyWalletValid_def Let_def split: callback.splits sum.splits)
  have same: "fst (mykeyWalletValid im w account' msg sig) = fst (mykeyWalletValid im w account msg sig)"
    if "eth_call w myKeyContract
               (encodeInputs im ''getKeyData''
                  [(''_account'', JString account'), (''_index'', JNumber 3)])
             = eth_call w myKeyContract ?data" for account'
    using that by (simp add: mykeyWalletValid_def Let_def split: callback.splits sum.splits)
  show ?thesis
    unfolding Let_def
  proof (intro conjI allI impI)
    show "myKeyContract = ''0xADc92d1fD878580579716d944eF3460E241604b7''"
      by (simp add: myKeyContract_def)
    show "snd (mykeyWalletValid im w account msg sig) = [EthCall myKeyContract ?data]"
      by (rule snd_mykeyWalletValid)
    show "fst (mykeyWalletValid im w account msg sig) = Resolved (ResultObj True) \<longleftrightarrow>
            (\<exists>res sg pub.
               eth_call w myKeyContract ?data = Ok res
               \<and> fromRpcSig im sig = Inr sg
               \<and> ecrecover im ?hash (sig_v sg) (sig_r sg) (sig_s sg) = Inr pub
               \<and> toLowerCase (toHex im (pubToAddress im pub))
                   = toLowerCase (addHexPrefix im (index0 (decodeOutputs im ''getKeyData'' res))))"
      by (rule verdict)
  next
    fix account'
    assume "eth_call w myKeyContract
               (encodeInputs im ''getKeyData''
                  [(''_account'', JString account'), (''_index'', JNumber 3)])
             = eth_call w myKeyContract ?data"
    then show "fst (mykeyWalletValid im w account' msg sig) = fst (mykeyWalletValid im w account msg sig)"
      by (rule same)
  qed
qed

text \<open>
  An instance: the registry holds \<open>0x1969ABCD\<close> for the account \<open>0x4d4b\<close>, the key
  recovered has the address \<open>0x1969abcd\<close>, and the strategy verifies although the
  account is neither.
\<close>

theorem mykeyWalletValid_registry_witness:
  "mykeyWalletValid sample_im (sample_web3 (Ok sample_sig)) ''0x4d4b'' ''hi'' sample_sig
     = (Resolved (ResultObj True), [EthCall myKeyContract ''0x7f9d5bf54d4b03''])
   \<and> toHex sample_im (pubToAddress sample_im [25, 105, 171, 205]) = ''0x1969abcd''
   \<and> eth_call (sample_web3 (Ok sample_sig)) myKeyContract ''0x7f9d5bf54d4b03'' = Ok ''0x1969ABCD''
   \<and> fst (mykeyWalletValid sample_im (sample_web3 (Ok sample_sig)) ''0xe0b'' ''hi'' sample_sig)
     = fst (mykeyWalletValid sample_im (sample_web3 (Ok sample_sig)) ''0xe0a'' ''hi'' sample_sig)"
proof -
  let ?w = "sample_web3 (Ok sample_sig)"
  let ?sg = "\<lparr>sig_v = 27, sig_r = 171 # 205 # replicate 30 0, sig_s = replicate 32 17\<rparr>"
  have d: "encodeInputs sample_im ''getKeyData''
             [(''_account'', JString ''0x4d4b''), (''_index'', JNumber 3)] = ''0x7f9d5bf54d4b03''"
    by code_simp
  have c: "eth_call ?w myKeyContract ''0x7f9d5bf54d4b03'' = Ok ''0x1969ABCD''"
    by code_simp
  have f: "fromRpcSig sample_im sample_sig = Inr ?sg"
    by code_simp
  have e: "ecrecover sample_im
             (hashPersonalMessage sample_im (keccak256 sample_im (toBuffer sample_im (JString ''hi''))))
             (sig_v ?sg) (sig_r ?sg) (sig_s ?sg) = Inr [25, 105, 171, 205]"
    by code_simp
  have a: "toHex sample_im (pubToAddress sample_im [25, 105, 171, 205]) = ''0x1969abcd''"
    by code_simp
  have m: "toLowerCase (toHex sample_im (pubToAddress sample_im [25, 105, 171, 205]))
             = toLowerCase (addHexPrefix sample_im
                 (index0 (decodeOutputs sample_im ''getKeyData'' ''0x1969ABCD'')))"
    by code_simp
  have s: "eth_call ?w myKeyContract
             (encodeInputs sample_im ''getKeyData''
                [(''_account'', JString ''0xe0b''), (''_index'', JNumber 3)])
           = eth_call ?w myKeyContract
             (encodeInputs sample_im ''getKeyData''
                [(''_account'', JString ''0xe0a''), (''_index'', JNumber 3)])"
    by code_simp
  note t1 = mykeyWalletValid_registry [of sample_im "''0x4d4b''" "''hi''" ?w sample_sig,
      unfolded Let_def d]
  note t2 = mykeyWalletValid_registry [of sample_im "''0xe0a''" "''hi''" ?w sample_sig,
      unfolded Let_def]
  have "fst (mykeyWalletValid sample_im ?w ''0x4d4b'' ''hi'' sample_sig) = Resolved (ResultObj True)"
    using t1 c f e m by blast
  moreover have "snd (mykeyWalletValid sample_im ?w ''0x4d4b'' ''hi'' sample_sig)
                   = [EthCall myKeyContract ''0x7f9d5bf54d4b03'']"
    using t1 by blast
  moreover have "fst (mykeyWalletValid sample_im ?w ''0xe0b'' ''hi'' sample_sig)
                   = fst (mykeyWalletValid sample_im ?w ''0xe0a'' ''hi'' sample_sig)"
    using t2 s by blast
  ultimately show ?thesis
    using a c by (simp add: prod_eq_iff)
qed

subsection \<open>C7: the WalletLink path\<close>

text \<open>
  Claim C7, amended. The sign call succeeded, the provider is not imToken and the
  wallet type is \<open>'WalletLink'\<close>. When \<open>fromRpcSig\<close> and \<open>ecrecover\<close> return,
  \<open>walletLinkValid\<close> resolves with the comparison, in lower case, of the recovered
  address (from \<open>hashPersonalMessage\<close> of the message bytes) with the account; it makes
  no provider call and its result is the same for every provider. \<open>personalSign\<close>
  resolves with \<open>{ sig }\<close> on a match and with
  \<open>{ error: 'Failed to valid using WalletLink' }\<close> otherwise, and its only provider call
  is the sign request.
\<close>

theorem personalSign_walletLink:
  assumes "personal_sign w msg account '''' = Ok sig" and "\<not> isImToken win"
    and "walletType = Some ''WalletLink''"
    and "fromRpcSig im sig = Inr sg"
    and "ecrecover im (hashPersonalMessage im (toBuffer im (JString msg)))
           (sig_v sg) (sig_r sg) (sig_s sg) = Inr pub"
  shows
    "(let matches = (toLowerCase (toHex im (pubToAddress im pub)) = toLowerCase account)
      in walletLinkValid im w account msg sig = (Resolved (ResultObj matches), [])
         \<and> personalSign im w win account msg walletType
             = (if matches then Resolved (SigResp sig)
                else Resolved (ErrorStr ''Failed to valid using WalletLink''),
                [PersonalSign msg account ''''])
         \<and> (\<forall>w'. walletLinkValid im w' account msg sig = walletLinkValid im w account msg sig))"
proof -
  have v: "walletLinkValid im w' account msg sig
             = (Resolved (ResultObj (toLowerCase (toHex im (pubToAddress im pub))
                                      = toLowerCase account)), [])" for w'
    using assms(4,5) by (simp add: walletLinkValid_def Let_def)
  show ?thesis
    unfolding Let_def
    by (simp add: walletLink_path [OF assms(1-3)] v resolve_def)
qed

text \<open>
  An instance: the account written in upper case matches the recovered address, and
  another account does not.
\<close>

theorem personalSign_walletLink_witness:
  "personalSign sample_im (sample_web3 (Ok sample_sig)) plain_window ''0x1968ABCD'' ''hi''
       (Some ''WalletLink'')
     = (Resolved (SigResp sample_sig), [PersonalSign ''hi'' ''0x1968ABCD'' ''''])
   \<and> personalSign sample_im (sample_web3 (Ok sample_sig)) plain_window ''0xe0a'' ''hi''
       (Some ''WalletLink'')
     = (Resolved (ErrorStr ''Failed to valid using WalletLink''), [PersonalSign ''hi'' ''0xe0a'' ''''])"
proof -
  let ?w = "sample_web3 (Ok sample_sig)"
  let ?sg = "\<lparr>sig_v = 27, sig_r = 171 # 205 # replicate 30 0, sig_s = replicate 32 17\<rparr>"
  have h1: "personal_sign ?w ''hi'' a '''' = Ok sample_sig" for a
    by (simp add: sample_web3_def)
  have h2: "\<not> isImToken plain_window"
    by (simp add: isImToken_def plain_window_def)
  have f: "fromRpcSig sample_im sample_sig = Inr ?sg"
    by code_simp
  have e: "ecrecover sample_im (hashPersonalMessage sample_im (toBuffer sample_im (JString ''hi'')))
             (sig_v ?sg) (sig_r ?sg) (sig_s ?sg) = Inr [25, 104, 171, 205]"
    by code_simp
  have m1: "toLowerCase (toHex sample_im (pubToAddress sample_im [25, 104, 171, 205]))
              = toLowerCase ''0x1968ABCD''"
    by code_simp
  have m2: "toLowerCase (toHex sample_im (pubToAddress sample_im [25, 104, 171, 205]))
              \<noteq> toLowerCase ''0xe0a''"
    by code_simp
  show ?thesis
    using personalSign_walletLink [OF h1 h2 refl f e, of "''0x1968ABCD''"]
      personalSign_walletLink [OF h1 h2 refl f e, of "''0xe0a''"] m1 m2
    unfolding Let_def by simp
qed

text \<open>
  Claim C7 as stated fails with an imToken provider: the imToken test comes first, so with
  the wallet type \<open>'WalletLink'\<close> a signature that local recovery would not match is
  accepted.
\<close>

theorem personalSign_walletLink_imToken_counterexample:
  "fst (walletLinkValid sample_im (sample_web3 (Ok sample_sig)) ''0xe0a'' ''hi'' sample_sig)
     = Resolved (ResultObj False)
   \<and> isImToken imToken_window
   \<and> personalSign sample_im (sample_web3 (Ok sample_sig)) imToken_window ''0xe0a'' ''hi''
         (Some ''WalletLink'')
     = (Resolved (SigResp sample_sig), [PersonalSign ''hi'' ''0xe0a'' ''''])"
  by code_simp

subsection \<open>C8: the Authereum path\<close>

text \<open>
  Claim C8, amended. The sign call succeeded, the provider is not imToken and the
  wallet type is \<open>'Authereum'\<close>. \<open>authereumValid\<close> encodes
  \<open>isValidSignature(bytes,bytes)\<close> with the message bytes themselves as \<open>_data\<close>, and
  makes one call, to the account. It resolves with \<open>{ result: true }\<close> exactly when the
  call returned and \<open>toHex\<close> of the first decoded output equals the first ten
  characters of the call data, which are \<open>0x\<close> and its first four bytes.
  \<open>personalSign\<close> then resolves with \<open>{ sig }\<close>, and with
  \<open>{ error: 'invalid sig using Authereum' }\<close> in every other case; its provider calls are
  the sign request and that call.
\<close>

theorem personalSign_authereum:
  assumes "personal_sign w msg account '''' = Ok sig" and "\<not> isImToken win"
    and "walletType = Some ''Authereum''"
  shows
    "(let data = encodeInputs im ''isValidSignature(bytes,bytes)''
                   [(''_data'', JBuffer (toBuffer im (JString msg))),
                    (''_signature'', JBuffer (toBuffer im (JString sig)))];
          verified = (\<exists>result. eth_call w account data = Ok result
                        \<and> toHex im (toBuffer im (index0
                              (decodeOutputs im ''isValidSignature(bytes,bytes)'' result)))
                            = js_slice data 0 10)
      in snd (authereumValid im w account msg sig) = [EthCall account data]
         \<and> (fst (authereumValid im w account msg sig) = Resolved (ResultObj True) \<longleftrightarrow> verified)
         \<and> personalSign im w win account msg walletType
             = (if verified then Resolved (SigResp sig)
                else Resolved (ErrorStr ''invalid sig using Authereum''),
                [PersonalSign msg account '''', EthCall account data])
         \<and> (\<forall>bs. data = ''0x'' @ hex_enc bs \<longrightarrow> js_slice data 0 10 = ''0x'' @ hex_enc (take 4 bs)))"
proof -
  let ?data = "encodeInputs im ''isValidSignature(bytes,bytes)''
                   [(''_data'', JBuffer (toBuffer im (JString msg))),
                    (''_signature'', JBuffer (toBuffer im (JString sig)))]"
  let ?verified = "\<exists>result. eth_call w account ?data = Ok result
                        \<and> toHex im (toBuffer im (index0
                              (decodeOutputs im ''isValidSignature(bytes,bytes)'' result)))
                            = js_slice ?data 0 10"
  have l: "snd (authereumValid im w account msg sig) = [EthCall account ?data]"
    by (simp add: authereumValid_def Let_def split: callback.splits)
  have r: "\<exists>x. fst (authereumValid im w account msg sig) = Resolved x \<and> (valid_result x \<longleftrightarrow> ?verified)"
    by (auto simp: authereumValid_def Let_def split: callback.splits)
  then obtain x where x: "fst (authereumValid im w account msg sig) = Resolved x"
    and xv: "valid_result x \<longleftrightarrow> ?verified"
    by blast
  have t: "fst (authereumValid im w account msg sig) = Resolved (ResultObj True) \<longleftrightarrow> ?verified"
    using x xv by (cases x) auto
  have p: "personalSign im w win account msg walletType
             = (if ?verified then Resolved (SigResp sig)
                else Resolved (ErrorStr ''invalid sig using Authereum''),
                [PersonalSign msg account '''', EthCall account ?data])"
    using x xv l
    by (simp add: authereum_path [OF assms] await_Resolved resolve_def)
  have h: "js_slice (''0x'' @ hex_enc bs) 0 10 = ''0x'' @ hex_enc (take 4 bs)" for bs
    using take_hex_enc [of 4 bs] by (simp add: js_slice_def)
  show ?thesis
    unfolding Let_def
  proof (intro conjI allI impI)
    show "snd (authereumValid im w account msg sig) = [EthCall account ?data]" by (rule l)
    show "fst (authereumValid im w account msg sig) = Resolved (ResultObj True) \<longleftrightarrow> ?verified"
      by (rule t)
    show "personalSign im w win account msg walletType
             = (if ?verified then Resolved (SigResp sig)
                else Resolved (ErrorStr ''invalid sig using Authereum''),
                [PersonalSign msg account '''', EthCall account ?data])"
      by (rule p)
  next
    fix bs assume "?data = ''0x'' @ hex_enc bs"
    then show "js_slice ?data 0 10 = ''0x'' @ hex_enc (take 4 bs)"
      using h by simp
  qed
qed

text \<open>An instance: the contract at \<open>0xa7\<close> answers with the selector.\<close>

theorem personalSign_authereum_witness:
  "personalSign sample_im (sample_web3 (Ok sample_sig)) plain_window ''0xa7'' ''hi''
       (Some ''Authereum'')
     = (Resolved (SigResp sample_sig),
        [PersonalSign ''hi'' ''0xa7'' '''',
         EthCall ''0xa7'' (''0x20c13b0b6869'' @ drop 2 sample_sig)])
   \<and> js_slice (''0x20c13b0b6869'' @ drop 2 sample_sig) 0 10 = ''0x'' @ hex_enc [32, 193, 59, 11]"
proof -
  let ?w = "sample_web3 (Ok sample_sig)"
  let ?data = "''0x20c13b0b6869'' @ drop 2 sample_sig"
  have h1: "personal_sign ?w ''hi'' ''0xa7'' '''' = Ok sample_sig"
    by (simp add: sample_web3_def)
  have h2: "\<not> isImToken plain_window"
    by (simp add: isImToken_def plain_window_def)
  have d: "encodeInputs sample_im ''isValidSignature(bytes,bytes)''
             [(''_data'', JBuffer (toBuffer sample_im (JString ''hi''))),
              (''_signature'', JBuffer (toBuffer sample_im (JString sample_sig)))] = ?data"
    by code_simp
  have c: "eth_call ?w ''0xa7'' ?data = Ok ''0x20c13b0b''"
    by code_simp
  have m: "toHex sample_im (toBuffer sample_im (index0
             (decodeOutputs sample_im ''isValidSignature(bytes,bytes)'' ''0x20c13b0b'')))
           = js_slice ?data 0 10"
    by code_simp
  have b: "?data = ''0x'' @ hex_enc (32 # 193 # 59 # 11 # 104 # 105 # 171 # 205
             # replicate 30 0 @ replicate 32 17 @ [27])"
    by code_simp
  have k: "take 4 (32 # 193 # 59 # 11 # 104 # 105 # 171 # 205
             # replicate 30 0 @ replicate 32 17 @ [27 :: 8 word]) = [32, 193, 59, 11]"
    by simp
  note t = personalSign_authereum [OF h1 h2 refl, of sample_im, unfolded Let_def d]
  note p = t [THEN conjunct2, THEN conjunct2, THEN conjunct1]
  note q = t [THEN conjunct2, THEN conjunct2, THEN conjunct2, rule_format, OF b]
  have ex: "\<exists>result. eth_call ?w ''0xa7'' ?data = Ok result
          \<and> toHex sample_im (toBuffer sample_im (index0
                (decodeOutputs sample_im ''isValidSignature(bytes,bytes)'' result)))
              = js_slice ?data 0 10"
    using c m by (intro exI conjI)
  have "personalSign sample_im ?w plain_window ''0xa7'' ''hi'' (Some ''Authereum'')
               = (Resolved (SigResp sample_sig),
                  [PersonalSign ''hi'' ''0xa7'' '''', EthCall ''0xa7'' ?data])"
    by (simp only: p ex if_True)
  moreover have "js_slice ?data 0 10 = ''0x'' @ hex_enc [32, 193, 59, 11]"
    by (simp only: q k)
  ultimately show ?thesis by (rule conjI)
qed

text \<open>
  Claim C8 as stated fails with an imToken provider: with the wallet type
  \<open>'Authereum'\<close> the signature is accepted although the call to the account would
  revert, and the call is not made.
\<close>

theorem personalSign_authereum_imToken_counterexample:
  "fst (authereumValid sample_im (sample_web3 (Ok sample_sig)) ''0xe0a'' ''hi'' sample_sig)
     = Resolved (ErrorObj (JsError ''execution reverted''))
   \<and> isImToken imToken_window
   \<and> personalSign sample_im (sample_web3 (Ok sample_sig)) imToken_window ''0xe0a'' ''hi''
         (Some ''Authereum'')
     = (Resolved (SigResp sample_sig), [PersonalSign ''hi'' ''0xe0a'' ''''])"
  by code_simp

subsection \<open>C9: signEthereumTx\<close>

text \<open>
  Claim C9. \<open>signEthereumTx\<close> builds the transaction from \<open>rawTx\<close>, passes
  \<open>toHex\<close> of its \<open>hash(false)\<close> to \<open>sign\<close>, and makes no provider call beyond
  the one \<open>sign\<close> makes. When \<open>sign\<close> resolves with \<open>(r, s, v)\<close>, and \<open>v\<close>, the
  chain id, \<open>chainId * 2\<close>, \<open>chainId * 2 + 8\<close> and \<open>v + (chainId * 2 + 8)\<close> are all
  below \<open>2^53\<close> in magnitude (the range on which the code's arithmetic on numbers is
  exact), it resolves with \<open>toHex\<close> of the serialization of the transaction in which
  \<open>r\<close> and \<open>s\<close> are those of the signature and \<open>v\<close> is the signature's \<open>v\<close>
  plus \<open>getChainId() * 2 + 8\<close>, every other property as it was. When \<open>sign\<close>
  resolves with an error it is rejected with an \<open>Error\<close> of that message.
\<close>

theorem signEthereumTx_assembles:
  "(let ethTx = Transaction im rawTx;
        hash = toHex im (tx_hash im ethTx False);
        chainId = tx_getChainId im ethTx;
        out = signEthereumTx im w account rawTx
    in snd out = snd (sign im w account hash)
       \<and> snd out = [EthSign hash account]
       \<and> (\<forall>sg. fst (sign im w account hash) = Resolved (SignResult sg)
                \<and> safe_integer (v sg) \<and> safe_integer chainId
                \<and> safe_integer (chainId * 2) \<and> safe_integer (chainId * 2 + 8)
                \<and> safe_integer (v sg + (chainId * 2 + 8)) \<longrightarrow>
             (let merged = assign_signature ethTx (sg\<lparr>v := v sg + (chainId * 2 + 8)\<rparr>)
              in fst out = Resolved (toHex im (tx_serialize im merged))
                 \<and> map_of merged
                     = (map_of ethTx)(''r'' \<mapsto> JString (r sg), ''s'' \<mapsto> JString (s sg),
                          ''v'' \<mapsto> JNumber (v sg + (chainId * 2 + 8)))))
       \<and> (\<forall>m. fst (sign im w account hash) = Resolved (SignError m) \<longrightarrow>
             fst out = Rejected (JsError m)))"
proof -
  let ?ethTx = "Transaction im rawTx"
  let ?hash = "toHex im (tx_hash im ?ethTx False)"
  let ?c = "tx_getChainId im ?ethTx"
  obtain y log where sg: "sign im w account ?hash = (y, log)"
    by (cases "sign im w account ?hash")
  have l: "log = [EthSign ?hash account]"
    using snd_sign [of im w account ?hash] sg by simp
  have a: "snd (signEthereumTx im w account rawTx) = log"
    using sg
    by (simp add: signEthereumTx_def Let_def split: settled.splits sign_response.splits)
  have b: "fst (signEthereumTx im w account rawTx)
             = Resolved (toHex im (tx_serialize im
                 (assign_signature ?ethTx (x\<lparr>v := v x + (?c * 2 + 8)\<rparr>))))"
    if "y = Resolved (SignResult x)" for x
    using sg that by (simp add: signEthereumTx_def Let_def)
  have c: "fst (signEthereumTx im w account rawTx) = Rejected (JsError m)"
    if "y = Resolved (SignError m)" for m
    using sg that by (simp add: signEthereumTx_def Let_def)
  show ?thesis
    unfolding Let_def sg fst_conv snd_conv
  proof (intro conjI allI impI)
    show "snd (signEthereumTx im w account rawTx) = log" by (rule a)
    show "snd (signEthereumTx im w account rawTx) = [EthSign ?hash account]"
      using a l by simp
  next
    fix x
    assume "y = Resolved (SignResult x)
              \<and> safe_integer (v x) \<and> safe_integer ?c
              \<and> safe_integer (?c * 2) \<and> safe_integer (?c * 2 + 8)
              \<and> safe_integer (v x + (?c * 2 + 8))"
    then have "y = Resolved (SignResult x)" by (rule conjunct1)
    then show "fst (signEthereumTx im w account rawTx)
             = Resolved (toHex im (tx_serialize im
                 (assign_signature ?ethTx (x\<lparr>v := v x + (?c * 2 + 8)\<rparr>))))"
      by (rule b)
  next
    fix x
    show "map_of (assign_signature ?ethTx (x\<lparr>v := v x + (?c * 2 + 8)\<rparr>))
            = (map_of ?ethTx)(''r'' \<mapsto> JString (r x), ''s'' \<mapsto> JString (s x),
                 ''v'' \<mapsto> JNumber (v x + (?c * 2 + 8)))"
      by (simp add: map_of_assign_signature)
  next
    fix m assume "y = Resolved (SignError m)"
    then show "fst (signEthereumTx im w account rawTx) = Rejected (JsError m)"
      by (rule c)
  qed
qed

text \<open>
  An instance on chain 1: the recovery id 27 becomes 37 (\<open>0x25\<close>), all values far
  below \<open>2^53\<close>, and a refused sign request rejects.
\<close>

theorem signEthereumTx_assembles_witness:
  "signEthereumTx sample_im (sample_web3 (Ok sample_sig)) ''0x4d4b'' sample_tx
     = (Resolved (''0x07c225'' @ drop 2 (take 130 sample_sig)), [EthSign ''0x1907c2'' ''0x4d4b''])
   \<and> v (sign_result sample_im sample_sig) = 27
   \<and> tx_getChainId sample_im (Transaction sample_im sample_tx) = 1
   \<and> safe_integer 27 \<and> safe_integer 1 \<and> safe_integer (1 * 2) \<and> safe_integer (1 * 2 + 8)
   \<and> safe_integer (27 + (1 * 2 + 8))
   \<and> signEthereumTx sample_im (sample_web3 (Err denied)) ''0x4d4b'' sample_tx
     = (Rejected (JsError ''User denied message signature.''), [EthSign ''0x1907c2'' ''0x4d4b''])"
proof -
  let ?ethTx = "Transaction sample_im sample_tx"
  let ?c = "tx_getChainId sample_im ?ethTx"
  let ?sg = "\<lparr>r = take 66 sample_sig, s = ''0x'' @ take 64 (drop 66 sample_sig), v = 27\<rparr>"
  have h: "toHex sample_im (tx_hash sample_im ?ethTx False) = ''0x1907c2''"
    by code_simp
  have s1: "fst (sign sample_im (sample_web3 (Ok sample_sig)) ''0x4d4b'' ''0x1907c2'')
              = Resolved (SignResult ?sg)"
    by code_simp
  have s2: "fst (sign sample_im (sample_web3 (Err denied)) ''0x4d4b'' ''0x1907c2'')
              = Resolved (SignError ''User denied message signature.'')"
    by code_simp
  have z: "toHex sample_im (tx_serialize sample_im
             (assign_signature ?ethTx (?sg\<lparr>v := v ?sg + (?c * 2 + 8)\<rparr>)))
           = ''0x07c225'' @ drop 2 (take 130 sample_sig)"
    by code_simp
  have n: "v (sign_result sample_im sample_sig) = 27"
    by code_simp
  have ch: "?c = 1"
    by code_simp
  have sf: "safe_integer 27 \<and> safe_integer 1 \<and> safe_integer (1 * 2) \<and> safe_integer (1 * 2 + 8)
              \<and> safe_integer (27 + (1 * 2 + 8))"
    by (simp add: safe_integer_def)
  have sv: "v ?sg = 27"
    by simp
  have hyp: "fst (sign sample_im (sample_web3 (Ok sample_sig)) ''0x4d4b'' ''0x1907c2'')
                = Resolved (SignResult ?sg)
              \<and> safe_integer (v ?sg) \<and> safe_integer ?c
              \<and> safe_integer (?c * 2) \<and> safe_integer (?c * 2 + 8)
              \<and> safe_integer (v ?sg + (?c * 2 + 8))"
    unfolding ch sv using s1 sf by (rule conjI)
  note t1 = signEthereumTx_assembles [where im = sample_im and rawTx = sample_tx
      and w = "sample_web3 (Ok sample_sig)" and account = "''0x4d4b''",
      unfolded Let_def h]
  note t2 = signEthereumTx_assembles [where im = sample_im and rawTx = sample_tx
      and w = "sample_web3 (Err denied)" and account = "''0x4d4b''",
      unfolded Let_def h]
  note ok = t1 [THEN conjunct2, THEN conjunct2, THEN conjunct1, rule_format, OF hyp, THEN conjunct1]
  note err = t2 [THEN conjunct2, THEN conjunct2, THEN conjunct2, rule_format, OF s2]
  note l1 = t1 [THEN conjunct2, THEN conjunct1]
  note l2 = t2 [THEN conjunct2, THEN conjunct1]
  have "signEthereumTx sample_im (sample_web3 (Ok sample_sig)) ''0x4d4b'' sample_tx
          = (Resolved (''0x07c225'' @ drop 2 (take 130 sample_sig)), [EthSign ''0x1907c2'' ''0x4d4b''])"
    using ok l1 unfolding z by (simp add: prod_eq_iff)
  moreover have "signEthereumTx sample_im (sample_web3 (Err denied)) ''0x4d4b'' sample_tx
          = (Rejected (JsError ''User denied message signature.''), [EthSign ''0x1907c2'' ''0x4d4b''])"
    using err l2 by (simp add: prod_eq_iff)
  ultimately show ?thesis
    using n ch sf by simp
qed

subsection \<open>C10: sendTransaction\<close>

text \<open>
  Claim C10. \<open>sendTransaction\<close> leaves the caller's object without the property
  \<open>gasPrice\<close> and with every other property as it was, in the same order; the object
  has changed when it had the property. The object submitted to the provider is that
  object.
\<close>

theorem sendTransaction_deletes_gasPrice:
  "(case sendTransaction w tx of
      (out, tx', log) \<Rightarrow>
        tx' = filter (\<lambda>p. fst p \<noteq> ''gasPrice'') tx
        \<and> map_of tx' ''gasPrice'' = None
        \<and> (\<forall>k. k \<noteq> ''gasPrice'' \<longrightarrow> map_of tx' k = map_of tx k)
        \<and> (map_of tx ''gasPrice'' \<noteq> None \<longrightarrow> tx' \<noteq> tx)
        \<and> log = [EthSendTransaction tx'])"
proof -
  let ?tx' = "AList.delete ''gasPrice'' tx"
  have e: "sendTransaction w tx
             = (fst (sendTransaction w tx), ?tx', [EthSendTransaction ?tx'])"
    by (simp add: sendTransaction_def Let_def split: callback.splits)
  have d: "?tx' = filter (\<lambda>p. fst p \<noteq> ''gasPrice'') tx"
    by (simp add: AList.delete_eq case_prod_beta' eq_commute)
  have m: "map_of ?tx' = (map_of tx)(''gasPrice'' := None)"
    by (rule AList.delete_conv')
  have g: "map_of ?tx' ''gasPrice'' = None"
    by (simp add: m)
  have k: "map_of ?tx' k = map_of tx k" if "k \<noteq> ''gasPrice''" for k
    using that by (simp add: m)
  have n: "?tx' \<noteq> tx" if "map_of tx ''gasPrice'' \<noteq> None"
    using that g by metis
  have f: "?tx' = filter (\<lambda>p. fst p \<noteq> ''gasPrice'') tx
        \<and> map_of ?tx' ''gasPrice'' = None
        \<and> (\<forall>k. k \<noteq> ''gasPrice'' \<longrightarrow> map_of ?tx' k = map_of tx k)
        \<and> (map_of tx ''gasPrice'' \<noteq> None \<longrightarrow> ?tx' \<noteq> tx)
        \<and> [EthSendTransaction ?tx'] = [EthSendTransaction ?tx']"
    using d g k n by blast
  show ?thesis
    by (subst e) (simp only: prod.case, rule f)
qed

text \<open>An instance: a transaction with four properties, one of them \<open>gasPrice\<close>.\<close>

theorem sendTransaction_deletes_gasPrice_witness:
  "sendTransaction (sample_web3 (Ok sample_sig)) sample_tx
     = (Resolved ''0x7472616e73616374696f6e'',
        [(''nonce'', JNumber 7), (''to'', JString ''0xc2''), (''chainId'', JNumber 1)],
        [EthSendTransaction
           [(''nonce'', JNumber 7), (''to'', JString ''0xc2''), (''chainId'', JNumber 1)]])
   \<and> map_of sample_tx ''gasPrice'' = Some (JNumber 5)
   \<and> map_of (fst (snd (sendTransaction (sample_web3 (Ok sample_sig)) sample_tx))) ''to''
       = map_of sample_tx ''to''"
proof -
  let ?w = "sample_web3 (Ok sample_sig)"
  obtain out tx' log where o: "sendTransaction ?w sample_tx = (out, tx', log)"
    by (cases "sendTransaction ?w sample_tx")
  note t = sendTransaction_deletes_gasPrice [where w = ?w and tx = sample_tx, unfolded o prod.case]
  have f: "filter (\<lambda>p. fst p \<noteq> ''gasPrice'') sample_tx
             = [(''nonce'', JNumber 7), (''to'', JString ''0xc2''), (''chainId'', JNumber 1)]"
    by code_simp
  have r: "fst (sendTransaction ?w sample_tx) = Resolved ''0x7472616e73616374696f6e''"
    by code_simp
  have g: "map_of sample_tx ''gasPrice'' = Some (JNumber 5)"
    by code_simp
  have k: "''to'' \<noteq> ''gasPrice''"
    by simp
  have "tx' = [(''nonce'', JNumber 7), (''to'', JString ''0xc2''), (''chainId'', JNumber 1)]"
    using t [THEN conjunct1] f by (rule trans)
  moreover have "log = [EthSendTransaction tx']"
    by (rule t [THEN conjunct2, THEN conjunct2, THEN conjunct2, THEN conjunct2])
  moreover have "map_of tx' ''to'' = map_of sample_tx ''to''"
    by (rule t [THEN conjunct2, THEN conjunct2, THEN conjunct1, rule_format, OF k])
  moreover have "out = Resolved ''0x7472616e73616374696f6e''"
    using r o by simp
  ultimately show ?thesis
    using o g by simp
qed

section \<open>Beyond the claims\<close>

subsection \<open>An error message without a stack location\<close>

lemma indexOf_none:
  "pat \<noteq> [] \<Longrightarrow> (\<forall>j<length t. take (length pat) (drop j t) \<noteq> pat)
     \<Longrightarrow> indexOf t pat = - 1"
proof (induction t)
  case Nil
  then show ?case by simp
next
  case (Cons c cs)
  have "\<forall>j<length cs. take (length pat) (drop j cs) \<noteq> pat"
  proof (intro allI impI)
    fix j assume "j < length cs"
    then have "Suc j < length (c # cs)" by simp
    with Cons.prems(2) have "take (length pat) (drop (Suc j) (c # cs)) \<noteq> pat" by blast
    then show "take (length pat) (drop j cs) \<noteq> pat" by simp
  qed
  with Cons.prems(1) have "indexOf cs pat = - 1"
    by (rule Cons.IH)
  moreover have "take (length pat) (drop 0 (c # cs)) \<noteq> pat"
  proof -
    have "0 < length (c # cs)" by simp
    with Cons.prems(2) show ?thesis by blast
  qed
  ultimately show ?case by (simp add: Let_def)
qed

lemma substring_neg: "i < 0 \<Longrightarrow> substring t 0 i = []"
  by (auto simp: substring_def Let_def min_def max_def)

text \<open>
  When the message of the provider's error contains no \<open>' at '\<close>, \<open>indexOf\<close> gives
  \<open>-1\<close>, \<open>substring(0, -1)\<close> is the empty string, and \<open>sign\<close> resolves with an
  empty error message: the text of the provider's message is lost.
\<close>

theorem sign_error_without_marker:
  assumes "eth_sign w hash account = Err err"
    and "\<forall>j<length (message err). take 4 (drop j (message err)) \<noteq> '' at ''"
  shows "sign im w account hash = (Resolved (SignError ''''), [EthSign hash account])"
proof -
  have len: "length '' at '' = 4" by simp
  have "\<forall>j<length (message err). take (length '' at '') (drop j (message err)) \<noteq> '' at ''"
    using assms(2) unfolding len .
  then have "indexOf (message err) '' at '' = - 1"
    by (intro indexOf_none) simp_all
  then have "sign_errorMsg err = ''''"
    by (simp add: sign_errorMsg_def substring_neg)
  then show ?thesis
    using assms(1) by (simp add: sign_def)
qed

text \<open>An instance: the message \<open>User denied\<close>.\<close>

theorem sign_error_without_marker_witness:
  "sign sample_im (sample_web3 (Err (JsError ''User denied''))) ''0xe0a'' ''0x1234''
     = (Resolved (SignError ''''), [EthSign ''0x1234'' ''0xe0a''])"
proof -
  let ?w = "sample_web3 (Err (JsError ''User denied''))"
  have h1: "eth_sign ?w ''0x1234'' ''0xe0a'' = Err (JsError ''User denied'')"
    by (simp add: sample_web3_def)
  have h2: "\<forall>j<length (message (JsError ''User denied'')).
              take 4 (drop j (message (JsError ''User denied''))) \<noteq> '' at ''"
    by (simp add: eval_nat_numeral All_less_Suc)
  show ?thesis
    by (rule sign_error_without_marker [OF h1 h2])
qed

end
